theory Spec2Isabelle
  imports Complex_Main
begin

section \<open>Python values, exceptions and the library functions the code calls\<close>

text \<open>
  The multi-hop reasoning core (\<^verbatim>\<open>week05/multiJump\<close>) is Python. Its property bags are
  \<^verbatim>\<open>Dict[str, Any]\<close>, and the records of the graph store and the decoded completion
  replies are untyped, so a value of type \<^verbatim>\<open>Any\<close> is a \<open>pyval\<close>. A \<^verbatim>\<open>float\<close> is an exact
  rational: rounding, infinities and NaN are outside this model. A \<^verbatim>\<open>str\<close> is its UTF-8
  byte sequence; the code never indexes or measures a string, it only concatenates,
  compares and tests them for emptiness. A \<^verbatim>\<open>dict\<close> is an association list in
  insertion order, read with \<open>map_of\<close>. \<open>VObj c\<close> is an object of class \<open>c\<close> with no
  arithmetic (a temporal value of the graph store, for instance).
\<close>

datatype pyval =
    VNone
  | VBool bool
  | VInt int
  | VFloat rat
  | VStr string
  | VList "pyval list"
  | VDict "(string \<times> pyval) list"
  | VObj string

type_synonym pydict = "(string \<times> pyval) list"

datatype exn_class =
    TypeError | ValueError | KeyError | IndexError | AttributeError | ZeroDivisionError
  | JSONDecodeError | StoreError | CompletionError

text \<open>
  An exception is either raised by the interpreter on a value (\<open>Raised\<close>: the class and
  the offending value; its text depends on the interpreter) or by a library or an
  external service, which gives its text (\<open>Failed\<close>).
\<close>

datatype exn = Raised exn_class pyval | Failed exn_class string

text \<open>
  Library functions of Python that the repository calls and does not define are
  parameters: \<^verbatim>\<open>json.loads\<close>, \<^verbatim>\<open>json.dumps\<close>, \<^verbatim>\<open>float\<close> on a string (\<open>None\<close> is its
  \<^verbatim>\<open>ValueError\<close>), the text of a float, a container or an object inside an f-string,
  the \<^verbatim>\<open>:.2f\<close> format, and the text of an exception of the interpreter.
\<close>

record pylib =
  json_loads :: "string \<Rightarrow> exn + pyval"
  json_dumps :: "pyval \<Rightarrow> string"
  float_of_str :: "string \<Rightarrow> rat option"
  repr_val :: "pyval \<Rightarrow> string"
  format_2f :: "rat \<Rightarrow> string"
  exn_text :: "exn_class \<Rightarrow> pyval \<Rightarrow> string"

text \<open>\<^verbatim>\<open>str(e)\<close>, also what \<^verbatim>\<open>{e}\<close> prints in an f-string.\<close>

fun str_exn :: "pylib \<Rightarrow> exn \<Rightarrow> string" where
  "str_exn lib (Raised c v) = exn_text lib c v"
| "str_exn lib (Failed c m) = m"

text \<open>Sequencing of computations that may raise: the first exception ends the block.\<close>

definition bind_exn :: "exn + 'a \<Rightarrow> ('a \<Rightarrow> exn + 'b) \<Rightarrow> exn + 'b" where
  "bind_exn m f = (case m of Inl e \<Rightarrow> Inl e | Inr x \<Rightarrow> f x)"

fun map_exn :: "('a \<Rightarrow> exn + 'b) \<Rightarrow> 'a list \<Rightarrow> exn + 'b list" where
  "map_exn f [] = Inr []"
| "map_exn f (x # xs) =
     (case f x of
        Inl e \<Rightarrow> Inl e
      | Inr y \<Rightarrow> (case map_exn f xs of Inl e \<Rightarrow> Inl e | Inr ys \<Rightarrow> Inr (y # ys)))"

text \<open>Truth value of an object in \<^verbatim>\<open>if x\<close>.\<close>

fun truthy :: "pyval \<Rightarrow> bool" where
  "truthy VNone = False"
| "truthy (VBool b) = b"
| "truthy (VInt i) = (i \<noteq> 0)"
| "truthy (VFloat f) = (f \<noteq> 0)"
| "truthy (VStr s) = (s \<noteq> [])"
| "truthy (VList xs) = (xs \<noteq> [])"
| "truthy (VDict d) = (d \<noteq> [])"
| "truthy (VObj c) = True"

text \<open>\<^verbatim>\<open>d.get(k, default)\<close>.\<close>

definition dict_get :: "pydict \<Rightarrow> string \<Rightarrow> pyval \<Rightarrow> pyval" where
  "dict_get d k dflt = (case map_of d k of None \<Rightarrow> dflt | Some v \<Rightarrow> v)"

text \<open>
  \<^verbatim>\<open>x > n\<close> for an int literal \<open>n\<close>: numbers compare by value (\<^verbatim>\<open>bool\<close> is a subclass of
  \<^verbatim>\<open>int\<close>), anything else raises \<^verbatim>\<open>TypeError\<close>.
\<close>

fun py_gt_int :: "pyval \<Rightarrow> int \<Rightarrow> exn + bool" where
  "py_gt_int (VInt i) n = Inr (n < i)"
| "py_gt_int (VFloat f) n = Inr (of_int n < f)"
| "py_gt_int (VBool b) n = Inr (n < (if b then 1 else 0))"
| "py_gt_int v n = Inl (Raised TypeError v)"

text \<open>\<^verbatim>\<open>a / b\<close> on numbers.\<close>

definition py_div :: "rat \<Rightarrow> rat \<Rightarrow> exn + rat" where
  "py_div a b = (if b = 0 then Inl (Raised ZeroDivisionError (VFloat a)) else Inr (a / b))"

text \<open>\<^verbatim>\<open>float(x)\<close>.\<close>

fun py_float :: "pylib \<Rightarrow> pyval \<Rightarrow> exn + rat" where
  "py_float lib (VFloat f) = Inr f"
| "py_float lib (VInt i) = Inr (of_int i)"
| "py_float lib (VBool b) = Inr (if b then 1 else 0)"
| "py_float lib (VStr s) =
     (case float_of_str lib s of
        Some f \<Rightarrow> Inr f
      | None \<Rightarrow> Inl (Raised ValueError (VStr s)))"
| "py_float lib v = Inl (Raised TypeError v)"

text \<open>\<^verbatim>\<open>x.get\<close>: only a dict has the method.\<close>

fun as_dict :: "pyval \<Rightarrow> exn + pydict" where
  "as_dict (VDict d) = Inr d"
| "as_dict v = Inl (Raised AttributeError v)"

text \<open>
  The element a value is in a \<^verbatim>\<open>set\<close>: lists and dicts are unhashable, and equal numbers
  (\<^verbatim>\<open>True\<close>, \<^verbatim>\<open>1\<close>, \<^verbatim>\<open>1.0\<close>) are one element.
\<close>

fun hash_key :: "pyval \<Rightarrow> exn + pyval" where
  "hash_key (VList xs) = Inl (Raised TypeError (VList xs))"
| "hash_key (VDict d) = Inl (Raised TypeError (VDict d))"
| "hash_key (VBool b) = Inr (VInt (if b then 1 else 0))"
| "hash_key (VFloat f) = Inr (if f = of_int \<lfloor>f\<rfloor> then VInt \<lfloor>f\<rfloor> else VFloat f)"
| "hash_key v = Inr v"

text \<open>Decimal text of an integer, as \<^verbatim>\<open>str\<close> and f-strings print it.\<close>

fun str_of_nat :: "nat \<Rightarrow> string" where
  "str_of_nat n =
     (if n < 10 then [''0123456789'' ! n]
      else str_of_nat (n div 10) @ [''0123456789'' ! (n mod 10)])"

definition str_of_int :: "int \<Rightarrow> string" where
  "str_of_int i = (if i < 0 then ''-'' @ str_of_nat (nat (- i)) else str_of_nat (nat i))"

text \<open>The text of a value inside an f-string.\<close>

fun py_str :: "pylib \<Rightarrow> pyval \<Rightarrow> string" where
  "py_str lib (VStr s) = s"
| "py_str lib VNone = ''None''"
| "py_str lib (VBool b) = (if b then ''True'' else ''False'')"
| "py_str lib (VInt i) = str_of_int i"
| "py_str lib v = repr_val lib v"

text \<open>\<^verbatim>\<open>sep.join(parts)\<close>.\<close>

fun join :: "string \<Rightarrow> string list \<Rightarrow> string" where
  "join sep [] = []"
| "join sep [x] = x"
| "join sep (x # y # ys) = x @ sep @ join sep (y # ys)"

text \<open>\<^verbatim>\<open>enumerate(xs)\<close>.\<close>

definition enumerate_list :: "'a list \<Rightarrow> (nat \<times> 'a) list" where
  "enumerate_list xs = zip [0..<length xs] xs"

section \<open>Fixed texts of the source\<close>

text \<open>
  The texts of the source that are not ASCII, as their UTF-8 bytes, each with the place
  it stands at, a translation and its code points.
\<close>

text \<open>
  \<^verbatim>\<open>kg_manager.py:213\<close>: "cannot generate a reasoning path", the sentinel
  (\<^verbatim>\<open>U+65E0 U+6CD5 U+751F U+6210 U+63A8 U+7406 U+8DEF U+5F84\<close>).
\<close>

definition no_reasoning_path :: string where
  "no_reasoning_path =
     [CHR 0xE6, CHR 0x97, CHR 0xA0, CHR 0xE6, CHR 0xB3, CHR 0x95, CHR 0xE7, CHR 0x94, CHR 0x9F,
      CHR 0xE6, CHR 0x88, CHR 0x90, CHR 0xE6, CHR 0x8E, CHR 0xA8, CHR 0xE7, CHR 0x90, CHR 0x86,
      CHR 0xE8, CHR 0xB7, CHR 0xAF, CHR 0xE5, CHR 0xBE, CHR 0x84]"

text \<open>\<^verbatim>\<open>kg_manager.py:141\<close>: "query of shareholders failed" (\<^verbatim>\<open>U+67E5 U+8BE2 U+80A1 U+4E1C U+5931 U+8D25\<close>).\<close>

definition msg_shareholders_failed :: string where
  "msg_shareholders_failed =
     [CHR 0xE6, CHR 0x9F, CHR 0xA5, CHR 0xE8, CHR 0xAF, CHR 0xA2, CHR 0xE8, CHR 0x82,
     CHR 0xA1, CHR 0xE4, CHR 0xB8, CHR 0x9C, CHR 0xE5, CHR 0xA4, CHR 0xB1, CHR 0xE8,
     CHR 0xB4, CHR 0xA5] @ '': ''"

text \<open>\<^verbatim>\<open>kg_manager.py:191\<close>: "query of the controlling shareholder failed" (\<^verbatim>\<open>U+67E5 U+8BE2 U+63A7 U+80A1 U+80A1 U+4E1C U+5931 U+8D25\<close>).\<close>

definition msg_controlling_failed :: string where
  "msg_controlling_failed =
     [CHR 0xE6, CHR 0x9F, CHR 0xA5, CHR 0xE8, CHR 0xAF, CHR 0xA2, CHR 0xE6, CHR 0x8E,
     CHR 0xA7, CHR 0xE8, CHR 0x82, CHR 0xA1, CHR 0xE8, CHR 0x82, CHR 0xA1, CHR 0xE4,
     CHR 0xB8, CHR 0x9C, CHR 0xE5, CHR 0xA4, CHR 0xB1, CHR 0xE8, CHR 0xB4, CHR 0xA5] @ '':
     ''"

text \<open>\<^verbatim>\<open>kg_manager.py:181\<close>: "holds" (\<^verbatim>\<open>U+6301 U+6709\<close>).\<close>

definition txt_holds :: string where
  "txt_holds =
     '' '' @ [CHR 0xE6, CHR 0x8C, CHR 0x81, CHR 0xE6, CHR 0x9C, CHR 0x89] @ '' ''"

text \<open>\<^verbatim>\<open>kg_manager.py:181\<close>: "% of the shares" (\<^verbatim>\<open>U+80A1 U+4EFD\<close>).\<close>

definition txt_percent_shares :: string where
  "txt_percent_shares =
     ''% '' @ [CHR 0xE8, CHR 0x82, CHR 0xA1, CHR 0xE4, CHR 0xBB, CHR 0xBD]"

text \<open>\<^verbatim>\<open>multihop_coordinator.py:91\<close>: "start processing the query" (\<^verbatim>\<open>U+5F00 U+59CB U+5904 U+7406 U+67E5 U+8BE2\<close>).\<close>

definition msg_start :: string where
  "msg_start =
     [CHR 0xE5, CHR 0xBC, CHR 0x80, CHR 0xE5, CHR 0xA7, CHR 0x8B, CHR 0xE5, CHR 0xA4,
     CHR 0x84, CHR 0xE7, CHR 0x90, CHR 0x86, CHR 0xE6, CHR 0x9F, CHR 0xA5, CHR 0xE8,
     CHR 0xAF, CHR 0xA2] @ '': ''"

text \<open>\<^verbatim>\<open>multihop_coordinator.py:127\<close>: "query processed, time taken" (\<^verbatim>\<open>U+67E5 U+8BE2 U+5904 U+7406 U+5B8C U+6210 U+FF0C U+8017 U+65F6\<close>).\<close>

definition msg_done :: string where
  "msg_done =
     [CHR 0xE6, CHR 0x9F, CHR 0xA5, CHR 0xE8, CHR 0xAF, CHR 0xA2, CHR 0xE5, CHR 0xA4,
     CHR 0x84, CHR 0xE7, CHR 0x90, CHR 0x86, CHR 0xE5, CHR 0xAE, CHR 0x8C, CHR 0xE6,
     CHR 0x88, CHR 0x90, CHR 0xEF, CHR 0xBC, CHR 0x8C, CHR 0xE8, CHR 0x80, CHR 0x97,
     CHR 0xE6, CHR 0x97, CHR 0xB6] @ '': ''"

text \<open>\<^verbatim>\<open>multihop_coordinator.py:127\<close>: "seconds" (\<^verbatim>\<open>U+79D2\<close>).\<close>

definition txt_seconds :: string where
  "txt_seconds =
     [CHR 0xE7, CHR 0xA7, CHR 0x92]"

text \<open>\<^verbatim>\<open>multihop_coordinator.py:131,138\<close>: "query processing failed" (\<^verbatim>\<open>U+67E5 U+8BE2 U+5904 U+7406 U+5931 U+8D25\<close>).\<close>

definition msg_query_failed :: string where
  "msg_query_failed =
     [CHR 0xE6, CHR 0x9F, CHR 0xA5, CHR 0xE8, CHR 0xAF, CHR 0xA2, CHR 0xE5, CHR 0xA4,
     CHR 0x84, CHR 0xE7, CHR 0x90, CHR 0x86, CHR 0xE5, CHR 0xA4, CHR 0xB1, CHR 0xE8,
     CHR 0xB4, CHR 0xA5] @ '': ''"

text \<open>\<^verbatim>\<open>multihop_coordinator.py:140\<close>: "error" (\<^verbatim>\<open>U+9519 U+8BEF\<close>).\<close>

definition txt_error :: string where
  "txt_error =
     [CHR 0xE9, CHR 0x94, CHR 0x99, CHR 0xE8, CHR 0xAF, CHR 0xAF] @ '': ''"

text \<open>\<^verbatim>\<open>multihop_coordinator.py:166\<close>: "intent identification" (\<^verbatim>\<open>U+610F U+56FE U+8BC6 U+522B\<close>).\<close>

definition txt_intent :: string where
  "txt_intent =
     [CHR 0xE6, CHR 0x84, CHR 0x8F, CHR 0xE5, CHR 0x9B, CHR 0xBE, CHR 0xE8, CHR 0xAF,
     CHR 0x86, CHR 0xE5, CHR 0x88, CHR 0xAB] @ '': ''"

text \<open>\<^verbatim>\<open>multihop_coordinator.py:166\<close>: "unknown" (\<^verbatim>\<open>U+672A U+77E5\<close>).\<close>

definition txt_unknown :: string where
  "txt_unknown =
     [CHR 0xE6, CHR 0x9C, CHR 0xAA, CHR 0xE7, CHR 0x9F, CHR 0xA5]"

text \<open>\<^verbatim>\<open>multihop_coordinator.py:173,176\<close>: "intent identification failed" (\<^verbatim>\<open>U+610F U+56FE U+8BC6 U+522B U+5931 U+8D25\<close>).\<close>

definition msg_intent_failed :: string where
  "msg_intent_failed =
     [CHR 0xE6, CHR 0x84, CHR 0x8F, CHR 0xE5, CHR 0x9B, CHR 0xBE, CHR 0xE8, CHR 0xAF,
     CHR 0x86, CHR 0xE5, CHR 0x88, CHR 0xAB, CHR 0xE5, CHR 0xA4, CHR 0xB1, CHR 0xE8,
     CHR 0xB4, CHR 0xA5] @ '': ''"

text \<open>\<^verbatim>\<open>multihop_coordinator.py:264\<close>: "graph query finished, found" (\<^verbatim>\<open>U+56FE U+8C31 U+67E5 U+8BE2 U+5B8C U+6210 U+FF0C U+627E U+5230\<close>).\<close>

definition txt_graph_done :: string where
  "txt_graph_done =
     [CHR 0xE5, CHR 0x9B, CHR 0xBE, CHR 0xE8, CHR 0xB0, CHR 0xB1, CHR 0xE6, CHR 0x9F,
     CHR 0xA5, CHR 0xE8, CHR 0xAF, CHR 0xA2, CHR 0xE5, CHR 0xAE, CHR 0x8C, CHR 0xE6,
     CHR 0x88, CHR 0x90, CHR 0xEF, CHR 0xBC, CHR 0x8C, CHR 0xE6, CHR 0x89, CHR 0xBE,
     CHR 0xE5, CHR 0x88, CHR 0xB0] @ '' ''"

text \<open>\<^verbatim>\<open>multihop_coordinator.py:264\<close>: "paths" (\<^verbatim>\<open>U+6761 U+8DEF U+5F84\<close>).\<close>

definition txt_paths :: string where
  "txt_paths =
     '' '' @ [CHR 0xE6, CHR 0x9D, CHR 0xA1, CHR 0xE8, CHR 0xB7, CHR 0xAF, CHR 0xE5,
     CHR 0xBE, CHR 0x84]"

text \<open>\<^verbatim>\<open>multihop_coordinator.py:271,274\<close>: "graph query failed" (\<^verbatim>\<open>U+56FE U+8C31 U+67E5 U+8BE2 U+5931 U+8D25\<close>).\<close>

definition msg_graph_failed :: string where
  "msg_graph_failed =
     [CHR 0xE5, CHR 0x9B, CHR 0xBE, CHR 0xE8, CHR 0xB0, CHR 0xB1, CHR 0xE6, CHR 0x9F,
     CHR 0xA5, CHR 0xE8, CHR 0xAF, CHR 0xA2, CHR 0xE5, CHR 0xA4, CHR 0xB1, CHR 0xE8,
     CHR 0xB4, CHR 0xA5] @ '': ''"

text \<open>\<^verbatim>\<open>multihop_coordinator.py:228\<close>: "multi-hop path, number of hops" (\<^verbatim>\<open>U+591A U+8DF3 U+8DEF U+5F84 U+FF0C U+8DF3 U+6570\<close>).\<close>

definition txt_multi_hop :: string where
  "txt_multi_hop =
     [CHR 0xE5, CHR 0xA4, CHR 0x9A, CHR 0xE8, CHR 0xB7, CHR 0xB3, CHR 0xE8, CHR 0xB7,
     CHR 0xAF, CHR 0xE5, CHR 0xBE, CHR 0x84, CHR 0xEF, CHR 0xBC, CHR 0x8C, CHR 0xE8,
     CHR 0xB7, CHR 0xB3, CHR 0xE6, CHR 0x95, CHR 0xB0] @ '': ''"

text \<open>\<^verbatim>\<open>multihop_coordinator.py:259\<close>: "entity" (\<^verbatim>\<open>U+5B9E U+4F53\<close>).\<close>

definition txt_entity :: string where
  "txt_entity =
     [CHR 0xE5, CHR 0xAE, CHR 0x9E, CHR 0xE4, CHR 0xBD, CHR 0x93] @ '' ''"

text \<open>\<^verbatim>\<open>multihop_coordinator.py:259\<close>: "neighbour information of" (\<^verbatim>\<open>U+7684 U+90BB U+5C45 U+4FE1 U+606F\<close>).\<close>

definition txt_neighbours :: string where
  "txt_neighbours =
     '' '' @ [CHR 0xE7, CHR 0x9A, CHR 0x84, CHR 0xE9, CHR 0x82, CHR 0xBB, CHR 0xE5,
     CHR 0xB1, CHR 0x85, CHR 0xE4, CHR 0xBF, CHR 0xA1, CHR 0xE6, CHR 0x81, CHR 0xAF]"

text \<open>\<^verbatim>\<open>multihop_coordinator.py:288\<close>: "no relevant path found, no reasoning possible" (\<^verbatim>\<open>U+672A U+627E U+5230 U+76F8 U+5173 U+8DEF U+5F84 U+FF0C U+65E0 U+6CD5 U+8FDB U+884C U+63A8 U+7406\<close>).\<close>

definition txt_no_path :: string where
  "txt_no_path =
     [CHR 0xE6, CHR 0x9C, CHR 0xAA, CHR 0xE6, CHR 0x89, CHR 0xBE, CHR 0xE5, CHR 0x88,
     CHR 0xB0, CHR 0xE7, CHR 0x9B, CHR 0xB8, CHR 0xE5, CHR 0x85, CHR 0xB3, CHR 0xE8,
     CHR 0xB7, CHR 0xAF, CHR 0xE5, CHR 0xBE, CHR 0x84, CHR 0xEF, CHR 0xBC, CHR 0x8C,
     CHR 0xE6, CHR 0x97, CHR 0xA0, CHR 0xE6, CHR 0xB3, CHR 0x95, CHR 0xE8, CHR 0xBF,
     CHR 0x9B, CHR 0xE8, CHR 0xA1, CHR 0x8C, CHR 0xE6, CHR 0x8E, CHR 0xA8, CHR 0xE7,
     CHR 0x90, CHR 0x86]"

text \<open>\<^verbatim>\<open>multihop_coordinator.py:290\<close>: "no relevant information" (\<^verbatim>\<open>U+65E0 U+76F8 U+5173 U+4FE1 U+606F\<close>).\<close>

definition txt_no_information :: string where
  "txt_no_information =
     [CHR 0xE6, CHR 0x97, CHR 0xA0, CHR 0xE7, CHR 0x9B, CHR 0xB8, CHR 0xE5, CHR 0x85,
     CHR 0xB3, CHR 0xE4, CHR 0xBF, CHR 0xA1, CHR 0xE6, CHR 0x81, CHR 0xAF]"

text \<open>\<^verbatim>\<open>multihop_coordinator.py:317\<close>: "integration finished, involving" (\<^verbatim>\<open>U+7ED3 U+679C U+6574 U+5408 U+5B8C U+6210 U+FF0C U+6D89 U+53CA\<close>).\<close>

definition txt_integrated :: string where
  "txt_integrated =
     [CHR 0xE7, CHR 0xBB, CHR 0x93, CHR 0xE6, CHR 0x9E, CHR 0x9C, CHR 0xE6, CHR 0x95,
     CHR 0xB4, CHR 0xE5, CHR 0x90, CHR 0x88, CHR 0xE5, CHR 0xAE, CHR 0x8C, CHR 0xE6,
     CHR 0x88, CHR 0x90, CHR 0xEF, CHR 0xBC, CHR 0x8C, CHR 0xE6, CHR 0xB6, CHR 0x89,
     CHR 0xE5, CHR 0x8F, CHR 0x8A] @ '' ''"

text \<open>\<^verbatim>\<open>multihop_coordinator.py:317\<close>: "entities" (\<^verbatim>\<open>U+4E2A U+5B9E U+4F53\<close>).\<close>

definition txt_entities :: string where
  "txt_entities =
     '' '' @ [CHR 0xE4, CHR 0xB8, CHR 0xAA, CHR 0xE5, CHR 0xAE, CHR 0x9E, CHR 0xE4,
     CHR 0xBD, CHR 0x93]"

text \<open>\<^verbatim>\<open>multihop_coordinator.py:324,327\<close>: "integration failed" (\<^verbatim>\<open>U+7ED3 U+679C U+6574 U+5408 U+5931 U+8D25\<close>).\<close>

definition msg_integration_failed :: string where
  "msg_integration_failed =
     [CHR 0xE7, CHR 0xBB, CHR 0x93, CHR 0xE6, CHR 0x9E, CHR 0x9C, CHR 0xE6, CHR 0x95,
     CHR 0xB4, CHR 0xE5, CHR 0x90, CHR 0x88, CHR 0xE5, CHR 0xA4, CHR 0xB1, CHR 0xE8,
     CHR 0xB4, CHR 0xA5] @ '': ''"

text \<open>\<^verbatim>\<open>multihop_coordinator.py:368\<close>: "cannot generate an answer" (\<^verbatim>\<open>U+65E0 U+6CD5 U+751F U+6210 U+7B54 U+6848\<close>).\<close>

definition txt_no_answer :: string where
  "txt_no_answer =
     [CHR 0xE6, CHR 0x97, CHR 0xA0, CHR 0xE6, CHR 0xB3, CHR 0x95, CHR 0xE7, CHR 0x94,
     CHR 0x9F, CHR 0xE6, CHR 0x88, CHR 0x90, CHR 0xE7, CHR 0xAD, CHR 0x94, CHR 0xE6,
     CHR 0xA1, CHR 0x88]"

text \<open>\<^verbatim>\<open>multihop_coordinator.py:370\<close>: "no explanation" (\<^verbatim>\<open>U+65E0 U+63A8 U+7406 U+8BF4 U+660E\<close>).\<close>

definition txt_no_explanation :: string where
  "txt_no_explanation =
     [CHR 0xE6, CHR 0x97, CHR 0xA0, CHR 0xE6, CHR 0x8E, CHR 0xA8, CHR 0xE7, CHR 0x90,
     CHR 0x86, CHR 0xE8, CHR 0xAF, CHR 0xB4, CHR 0xE6, CHR 0x98, CHR 0x8E]"

text \<open>\<^verbatim>\<open>multihop_coordinator.py:374\<close>: "generating the final answer failed" (\<^verbatim>\<open>U+751F U+6210 U+6700 U+7EC8 U+7B54 U+6848 U+5931 U+8D25\<close>).\<close>

definition msg_final_failed :: string where
  "msg_final_failed =
     [CHR 0xE7, CHR 0x94, CHR 0x9F, CHR 0xE6, CHR 0x88, CHR 0x90, CHR 0xE6, CHR 0x9C,
     CHR 0x80, CHR 0xE7, CHR 0xBB, CHR 0x88, CHR 0xE7, CHR 0xAD, CHR 0x94, CHR 0xE6,
     CHR 0xA1, CHR 0x88, CHR 0xE5, CHR 0xA4, CHR 0xB1, CHR 0xE8, CHR 0xB4, CHR 0xA5] @ '':
     ''"

text \<open>\<^verbatim>\<open>multihop_coordinator.py:376\<close>: "answer generation failed" (\<^verbatim>\<open>U+7B54 U+6848 U+751F U+6210 U+5931 U+8D25\<close>).\<close>

definition txt_answer_failed :: string where
  "txt_answer_failed =
     [CHR 0xE7, CHR 0xAD, CHR 0x94, CHR 0xE6, CHR 0xA1, CHR 0x88, CHR 0xE7, CHR 0x94,
     CHR 0x9F, CHR 0xE6, CHR 0x88, CHR 0x90, CHR 0xE5, CHR 0xA4, CHR 0xB1, CHR 0xE8,
     CHR 0xB4, CHR 0xA5] @ '': ''"

text \<open>\<^verbatim>\<open>multihop_coordinator.py:378\<close>: "system error" (\<^verbatim>\<open>U+7CFB U+7EDF U+9519 U+8BEF\<close>).\<close>

definition txt_system_error :: string where
  "txt_system_error =
     [CHR 0xE7, CHR 0xB3, CHR 0xBB, CHR 0xE7, CHR 0xBB, CHR 0x9F, CHR 0xE9, CHR 0x94,
     CHR 0x99, CHR 0xE8, CHR 0xAF, CHR 0xAF]"

text \<open>\<^verbatim>\<open>multihop_coordinator.py:397,399\<close>: "the call of the LLM failed" (\<^verbatim>\<open>U+8C03 U+7528 U+5931 U+8D25\<close>).\<close>

definition msg_llm_failed :: string where
  "msg_llm_failed =
     ''LLM'' @ [CHR 0xE8, CHR 0xB0, CHR 0x83, CHR 0xE7, CHR 0x94, CHR 0xA8, CHR 0xE5,
     CHR 0xA4, CHR 0xB1, CHR 0xE8, CHR 0xB4, CHR 0xA5] @ '': ''"

text \<open>\<^verbatim>\<open>multihop_coordinator.py:400\<close>: "the system cannot process this query for the moment" (\<^verbatim>\<open>U+7CFB U+7EDF U+6682 U+65F6 U+65E0 U+6CD5 U+5904 U+7406 U+8BE5 U+67E5 U+8BE2\<close>).\<close>

definition txt_cannot_process :: string where
  "txt_cannot_process =
     [CHR 0xE7, CHR 0xB3, CHR 0xBB, CHR 0xE7, CHR 0xBB, CHR 0x9F, CHR 0xE6, CHR 0x9A,
     CHR 0x82, CHR 0xE6, CHR 0x97, CHR 0xB6, CHR 0xE6, CHR 0x97, CHR 0xA0, CHR 0xE6,
     CHR 0xB3, CHR 0x95, CHR 0xE5, CHR 0xA4, CHR 0x84, CHR 0xE7, CHR 0x90, CHR 0x86,
     CHR 0xE8, CHR 0xAF, CHR 0xA5, CHR 0xE6, CHR 0x9F, CHR 0xA5, CHR 0xE8, CHR 0xAF,
     CHR 0xA2]"

text \<open>\<^verbatim>\<open>multihop_coordinator.py:402\<close>: "the LLM service is unavailable" (\<^verbatim>\<open>U+670D U+52A1 U+4E0D U+53EF U+7528\<close>).\<close>

definition txt_llm_unavailable :: string where
  "txt_llm_unavailable =
     ''LLM'' @ [CHR 0xE6, CHR 0x9C, CHR 0x8D, CHR 0xE5, CHR 0x8A, CHR 0xA1, CHR 0xE4,
     CHR 0xB8, CHR 0x8D, CHR 0xE5, CHR 0x8F, CHR 0xAF, CHR 0xE7, CHR 0x94, CHR 0xA8]"

section \<open>The path model and the knowledge-graph adapter (\<^verbatim>\<open>kg_manager.py\<close>)\<close>

text \<open>
  The three dataclasses. A field that the code fills from a record of the store
  (\<^verbatim>\<open>id\<close>, \<^verbatim>\<open>name\<close>, \<^verbatim>\<open>type\<close> of an entity, the ends of a relation) holds whatever the
  store returned, so it is a \<open>pyval\<close>; a relation's type is always the label of an edge
  or a string literal.
\<close>

record entity =
  ent_id :: pyval
  ent_name :: pyval
  ent_type :: pyval
  ent_properties :: pydict

record relation =
  rel_source :: pyval
  rel_target :: pyval
  relation_type :: string
  rel_properties :: pydict

record query_path =
  entities :: "entity list"
  relations :: "relation list"
  confidence :: rat
  reasoning :: string

subsection \<open>The graph store\<close>

text \<open>
  The store is outside the repository. What the code observes of it is, for each query
  it runs, the records the cursor yields and whether the session, the run or the
  iteration raises after them: a \<open>cursor\<close> is the list of records yielded, then the
  exception if there is one. A query is named by the adapter method that builds it and
  the parameters it puts into the Cypher text. Every request to the store and every
  line the code logs is an \<open>event\<close>; a function that has effects returns its events
  beside its value.
\<close>

type_synonym 'r cursor = "'r list \<times> exn option"

datatype store_query =
    ShareholderQuery string int
  | ControllingQuery string
  | MultiHopQuery string string int
  | NeighborQuery string

datatype log_level = INFO | ERROR

datatype event = StoreRequest store_query | Logged log_level string

text \<open>
  A record of \<^verbatim>\<open>find_shareholders\<close>: \<^verbatim>\<open>entities\<close> is a list of maps with the keys
  \<^verbatim>\<open>id\<close>, \<^verbatim>\<open>name\<close>, \<^verbatim>\<open>type\<close>, \<^verbatim>\<open>relations\<close> a list of maps with the keys \<^verbatim>\<open>type\<close>,
  \<^verbatim>\<open>properties\<close>, and \<^verbatim>\<open>hops\<close> the length of the path.
\<close>

record shareholder_row =
  row_entities :: "(pyval \<times> pyval \<times> pyval) list"
  row_relations :: "(string \<times> pydict) list"
  row_hops :: int

text \<open>A node and an edge of the store, as the driver hands them over.\<close>

record graph_node =
  node_labels :: "string list"
  node_properties :: pydict

record graph_edge =
  edge_type :: string
  edge_properties :: pydict

text \<open>A record of \<^verbatim>\<open>find_controlling_shareholder\<close>: the node \<^verbatim>\<open>s\<close> and the edge \<^verbatim>\<open>r\<close>.\<close>

record controlling_row =
  row_s :: graph_node
  row_r :: graph_edge

text \<open>A record of \<^verbatim>\<open>find_multi_hop_relationships\<close>: the path and \<^verbatim>\<open>hop_count\<close>.\<close>

record path_row =
  path_nodes :: "graph_node list"
  path_relationships :: "graph_edge list"
  row_hop_count :: int

text \<open>
  A record of \<^verbatim>\<open>get_entity_neighbors\<close>, and the dict the method makes of it, which has
  the same four values under the keys \<^verbatim>\<open>name\<close>, \<^verbatim>\<open>labels\<close>, \<^verbatim>\<open>relationship_type\<close>,
  \<^verbatim>\<open>distance\<close>.
\<close>

record neighbor =
  neighbor_name :: pyval
  neighbor_labels :: "string list"
  relationship_type :: pyval
  distance :: pyval

text \<open>
  The reply of the completion service to one call: the call raises, or it returns and the
  text is the stripped content of the first choice.
\<close>

datatype completion = CompletionRaised exn | CompletionContent string

text \<open>
  Everything outside the repository that one request meets: the store's answer to each
  query, the completion service's reply to the two calls of \<^verbatim>\<open>process_query\<close> (intent,
  then final answer), and the seconds the clock shows between start and end.
\<close>

record world =
  shareholder_cursor :: "string \<Rightarrow> int \<Rightarrow> shareholder_row cursor"
  controlling_single :: "string \<Rightarrow> exn + controlling_row option"
  multi_hop_cursor :: "string \<Rightarrow> string \<Rightarrow> int \<Rightarrow> path_row cursor"
  neighbor_cursor :: "string \<Rightarrow> neighbor cursor"
  completion_intent :: completion
  completion_answer :: completion
  elapsed :: rat

subsection \<open>\<^verbatim>\<open>_calculate_path_confidence\<close>\<close>

text \<open>
  The loop over the relations: \<open>bonus\<close> is \<^verbatim>\<open>relation_bonus\<close> so far. The second test is
  an \<^verbatim>\<open>elif\<close>: it is reached only when the first is false. The comparison of the first
  test raises \<^verbatim>\<open>TypeError\<close> on a percentage that is not a number.
\<close>

fun relation_bonus :: "relation list \<Rightarrow> rat \<Rightarrow> exn + rat" where
  "relation_bonus [] bonus = Inr bonus"
| "relation_bonus (r # rs) bonus =
     (case py_gt_int (dict_get (rel_properties r) ''percentage'' (VInt 0)) 50 of
        Inl e \<Rightarrow> Inl e
      | Inr True \<Rightarrow> relation_bonus rs (bonus + 1 / 10)
      | Inr False \<Rightarrow>
          (if dict_get (rel_properties r) ''control_type'' VNone = VStr ''controlling''
           then relation_bonus rs (bonus + 15 / 100)
           else relation_bonus rs bonus))"

definition base_confidence :: "int \<Rightarrow> rat" where
  "base_confidence hops = max (1 / 10) (1 - (of_int hops - 1) * (2 / 10))"

definition calculate_path_confidence :: "int \<Rightarrow> relation list \<Rightarrow> exn + rat" where
  "calculate_path_confidence hops rels =
     (case relation_bonus rels 0 of
        Inl e \<Rightarrow> Inl e
      | Inr bonus \<Rightarrow> Inr (min 1 (base_confidence hops + bonus)))"

subsection \<open>\<^verbatim>\<open>_generate_reasoning\<close>\<close>

definition percentage_str :: "pylib \<Rightarrow> relation \<Rightarrow> string" where
  "percentage_str lib r =
     (let percentage = dict_get (rel_properties r) ''percentage'' (VStr '''')
      in if truthy percentage then ''('' @ py_str lib percentage @ ''%)'' else '''')"

definition reasoning_part :: "pylib \<Rightarrow> entity \<Rightarrow> relation \<Rightarrow> entity \<Rightarrow> string" where
  "reasoning_part lib e r next_entity =
     py_str lib (ent_name e) @ '' -> '' @ relation_type r @ '' '' @ percentage_str lib r @
     '' -> '' @ py_str lib (ent_name next_entity)"

text \<open>
  The loop over \<^verbatim>\<open>enumerate(entities[:-1])\<close>; the result is \<^verbatim>\<open>reasoning_parts\<close>. An entity
  object is always true in \<^verbatim>\<open>if next_entity\<close>, so that test is whether the index
  \<open>i + 1\<close> exists.
\<close>

fun reasoning_loop ::
  "pylib \<Rightarrow> entity list \<Rightarrow> relation list \<Rightarrow> (nat \<times> entity) list \<Rightarrow> string list" where
  "reasoning_loop lib es rs [] = []"
| "reasoning_loop lib es rs ((i, e) # rest) =
     (if i < length rs then
        (if i + 1 < length es
         then reasoning_part lib e (rs ! i) (es ! (i + 1)) # reasoning_loop lib es rs rest
         else reasoning_loop lib es rs rest)
      else reasoning_loop lib es rs rest)"

definition generate_reasoning :: "pylib \<Rightarrow> entity list \<Rightarrow> relation list \<Rightarrow> string" where
  "generate_reasoning lib es rs =
     (if es = [] \<or> rs = [] then no_reasoning_path
      else join '' -> '' (reasoning_loop lib es rs (enumerate_list (butlast es))))"

subsection \<open>\<^verbatim>\<open>find_shareholders\<close>\<close>

definition row_entity :: "pyval \<times> pyval \<times> pyval \<Rightarrow> entity" where
  "row_entity e =
     (case e of (i, n, t) \<Rightarrow> \<lparr>ent_id = i, ent_name = n, ent_type = t, ent_properties = []\<rparr>)"

definition row_relation :: "string \<times> pydict \<Rightarrow> relation" where
  "row_relation r =
     (case r of (t, props) \<Rightarrow>
        \<lparr>rel_source = VStr '''', rel_target = VStr '''', relation_type = t,
         rel_properties = props\<rparr>)"

text \<open>The body of the loop over the records: one record becomes one path, or raises.\<close>

definition shareholder_path :: "pylib \<Rightarrow> shareholder_row \<Rightarrow> exn + query_path" where
  "shareholder_path lib row =
     (let es = map row_entity (row_entities row);
          rs = map row_relation (row_relations row)
      in case calculate_path_confidence (row_hops row) rs of
           Inl e \<Rightarrow> Inl e
         | Inr c \<Rightarrow>
             Inr \<lparr>entities = es, relations = rs, confidence = c,
                  reasoning = generate_reasoning lib es rs\<rparr>)"

text \<open>
  The loop appends to \<^verbatim>\<open>paths\<close> until a record raises: the result is the paths appended
  and the exception, if any.
\<close>

fun shareholder_loop :: "pylib \<Rightarrow> shareholder_row list \<Rightarrow> query_path list \<times> exn option" where
  "shareholder_loop lib [] = ([], None)"
| "shareholder_loop lib (row # rows) =
     (case shareholder_path lib row of
        Inl e \<Rightarrow> ([], Some e)
      | Inr p \<Rightarrow> (case shareholder_loop lib rows of (ps, err) \<Rightarrow> (p # ps, err)))"

text \<open>
  The \<^verbatim>\<open>try\<close> holds the session and the loop; \<^verbatim>\<open>except Exception\<close> logs and falls through
  to \<^verbatim>\<open>return paths\<close>. An exception of the cursor comes after the records it yielded.
\<close>

definition find_shareholders ::
  "pylib \<Rightarrow> world \<Rightarrow> string \<Rightarrow> int \<Rightarrow> query_path list \<times> event list" where
  "find_shareholders lib w company_name hops =
     (case shareholder_cursor w company_name hops of (rows, failure) \<Rightarrow>
        (case shareholder_loop lib rows of (paths, err) \<Rightarrow>
           (paths,
            StoreRequest (ShareholderQuery company_name hops) #
            (case (case err of Some e \<Rightarrow> Some e | None \<Rightarrow> failure) of
               Some e \<Rightarrow> [Logged ERROR (msg_shareholders_failed @ str_exn lib e)]
             | None \<Rightarrow> []))))"

subsection \<open>\<^verbatim>\<open>find_controlling_shareholder\<close>\<close>

text \<open>\<^verbatim>\<open>node[key]\<close> raises \<^verbatim>\<open>KeyError\<close> on a property the node does not have.\<close>

definition node_getitem :: "graph_node \<Rightarrow> string \<Rightarrow> exn + pyval" where
  "node_getitem n k =
     (case map_of (node_properties n) k of
        None \<Rightarrow> Inl (Raised KeyError (VStr k))
      | Some v \<Rightarrow> Inr v)"

text \<open>\<^verbatim>\<open>labels[0]\<close> raises \<^verbatim>\<open>IndexError\<close> on the empty list.\<close>

definition first_label :: "string list \<Rightarrow> exn + string" where
  "first_label ls = (case ls of [] \<Rightarrow> Inl (Raised IndexError (VList [])) | l # _ \<Rightarrow> Inr l)"

definition controlling_path :: "pylib \<Rightarrow> string \<Rightarrow> controlling_row \<Rightarrow> exn + query_path" where
  "controlling_path lib company_name row =
     bind_exn (node_getitem (row_s row) ''id'') (\<lambda>sid.
     bind_exn (node_getitem (row_s row) ''name'') (\<lambda>sname.
     bind_exn (first_label (node_labels (row_s row))) (\<lambda>label.
     bind_exn (py_gt_int (dict_get (edge_properties (row_r row)) ''percentage'' (VInt 0)) 50)
       (\<lambda>majority.
          Inr \<lparr>entities =
                 [\<lparr>ent_id = sid, ent_name = sname, ent_type = VStr label,
                   ent_properties = node_properties (row_s row)\<rparr>],
               relations =
                 [\<lparr>rel_source = sid, rel_target = VStr company_name,
                   relation_type = ''SHAREHOLDER'',
                   rel_properties = edge_properties (row_r row)\<rparr>],
               confidence = (if majority then 9 / 10 else 7 / 10),
               reasoning =
                 py_str lib sname @ txt_holds @ company_name @ '' '' @
                 py_str lib (dict_get (edge_properties (row_r row)) ''percentage'' (VStr ''N/A''))
                 @ txt_percent_shares\<rparr>))))"

definition find_controlling_shareholder ::
  "pylib \<Rightarrow> world \<Rightarrow> string \<Rightarrow> query_path option \<times> event list" where
  "find_controlling_shareholder lib w company_name =
     (case bind_exn (controlling_single w company_name)
             (\<lambda>single. case single of
                 None \<Rightarrow> Inr None
               | Some row \<Rightarrow> bind_exn (controlling_path lib company_name row) (\<lambda>p. Inr (Some p)))
      of
        Inl e \<Rightarrow>
          (None,
           [StoreRequest (ControllingQuery company_name),
            Logged ERROR (msg_controlling_failed @ str_exn lib e)])
      | Inr r \<Rightarrow> (r, [StoreRequest (ControllingQuery company_name)]))"

section \<open>The Neo4j adapter (\<^verbatim>\<open>graph_manager.py\<close>)\<close>

text \<open>The dicts \<^verbatim>\<open>find_multi_hop_relationships\<close> returns.\<close>

record node_dict =
  nd_id :: pyval
  nd_name :: pyval
  nd_labels :: "string list"

record path_dict =
  pd_nodes :: "node_dict list"
  pd_relationships :: "(string \<times> pydict) list"
  pd_hop_count :: int

definition path_dict_of :: "path_row \<Rightarrow> path_dict" where
  "path_dict_of row =
     \<lparr>pd_nodes =
        map (\<lambda>node.
               \<lparr>nd_id = dict_get (node_properties node) ''id'' (VStr ''''),
                nd_name = dict_get (node_properties node) ''name'' (VStr ''''),
                nd_labels = node_labels node\<rparr>)
          (path_nodes row),
      pd_relationships = map (\<lambda>rel. (edge_type rel, edge_properties rel)) (path_relationships row),
      pd_hop_count = row_hop_count row\<rparr>"

text \<open>
  Neither method of this class has a \<^verbatim>\<open>try\<close>: an exception of the session, the run or
  the iteration leaves the method, whatever the loop had collected.
\<close>

definition find_multi_hop_relationships ::
  "world \<Rightarrow> string \<Rightarrow> string \<Rightarrow> int \<Rightarrow> (exn + path_dict list) \<times> event list" where
  "find_multi_hop_relationships w start_entity relationship hops =
     (case multi_hop_cursor w start_entity relationship hops of (rows, failure) \<Rightarrow>
        ((case failure of Some e \<Rightarrow> Inl e | None \<Rightarrow> Inr (map path_dict_of rows)),
         [StoreRequest (MultiHopQuery start_entity relationship hops)]))"

record neighbors_dict =
  nb_entity :: string
  nb_neighbors :: "neighbor list"

text \<open>The Cypher text has the depth \<^verbatim>\<open>1..2\<close> written in it; \<^verbatim>\<open>max_depth\<close> is not read.\<close>

definition get_entity_neighbors ::
  "world \<Rightarrow> string \<Rightarrow> int \<Rightarrow> (exn + neighbors_dict) \<times> event list" where
  "get_entity_neighbors w entity_name max_depth =
     (case neighbor_cursor w entity_name of (rows, failure) \<Rightarrow>
        ((case failure of
            Some e \<Rightarrow> Inl e
          | None \<Rightarrow> Inr \<lparr>nb_entity = entity_name, nb_neighbors = rows\<rparr>),
         [StoreRequest (NeighborQuery entity_name)]))"

section \<open>The coordinator (\<^verbatim>\<open>multihop_coordinator.py\<close>)\<close>

text \<open>
  \<^verbatim>\<open>QueryType\<close> is an enumeration of four members. \<open>OTHER v\<close> is a member with the value
  \<open>v\<close> that a later version adds: the dispatch of \<^verbatim>\<open>_execute_graph_query\<close> names the four
  members one by one, so it is the only place that tells them from any other.
\<close>

datatype query_type = SHAREHOLDER | CONTROL_CHAIN | RELATIONSHIP | ENTITY_INFO | OTHER string

text \<open>\<^verbatim>\<open>query_type.value\<close>.\<close>

fun query_type_value :: "query_type \<Rightarrow> string" where
  "query_type_value SHAREHOLDER = ''shareholder''"
| "query_type_value CONTROL_CHAIN = ''control_chain''"
| "query_type_value RELATIONSHIP = ''relationship''"
| "query_type_value ENTITY_INFO = ''entity_info''"
| "query_type_value (OTHER v) = v"

record query_request =
  query :: string
  query_type :: query_type
  entity :: string
  max_hops :: int
  similarity_threshold :: rat
  context_dict :: "pydict option"

record query_result =
  result_query :: string
  result_query_type :: query_type
  paths :: "query_path list"
  answer :: pyval
  result_confidence :: rat
  reasoning_steps :: "string list"
  execution_time :: rat
  metadata :: pydict

text \<open>
  The summary of the integration stage. The two sets are made lists by \<^verbatim>\<open>list(set)\<close>,
  whose order Python leaves open, and only their length is read afterwards: they stay
  sets here.
\<close>

record integrated_info =
  total_paths :: nat
  high_confidence_paths :: "query_path list"
  entities_involved :: "pyval set"
  relationship_types :: "string set"

text \<open>
  The \<^verbatim>\<open>result\<close> dict of a step, one constructor for each shape the code builds: the
  decoded intent (or \<^verbatim>\<open>{}\<close>), \<^verbatim>\<open>{'paths': paths}\<close>, \<^verbatim>\<open>{'integrated_info': text}\<close> with
  the text \<open>txt_no_information\<close>, \<^verbatim>\<open>{'integrated_info': info, 'paths': paths}\<close>, and
  \<^verbatim>\<open>{'integrated_info': {}}\<close>.
\<close>

datatype step_payload =
    IntentPayload pydict
  | GraphPayload "query_path list"
  | NoInformation
  | IntegratedPayload integrated_info "query_path list"
  | IntegrationFailed

record reasoning_step =
  step_id :: int
  description :: string
  data_source :: string
  result :: step_payload
  step_confidence :: rat

text \<open>
  \<^verbatim>\<open>result.get('paths', [])\<close>. The code reads it from the result of step 2 only, which is
  a \<open>GraphPayload\<close>.
\<close>

fun payload_paths :: "step_payload \<Rightarrow> query_path list" where
  "payload_paths (GraphPayload ps) = ps"
| "payload_paths (IntegratedPayload info ps) = ps"
| "payload_paths p = []"

subsection \<open>\<^verbatim>\<open>_call_llm\<close>\<close>

definition llm_fallback :: "pylib \<Rightarrow> exn \<Rightarrow> pyval" where
  "llm_fallback lib e =
     VDict [(''error'', VStr (msg_llm_failed @ str_exn lib e)),
            (''answer'', VStr txt_cannot_process),
            (''confidence'', VFloat 0),
            (''explanation'', VStr txt_llm_unavailable)]"

text \<open>
  The prompt is text for the service only; its reply is not a function of it that the
  code could rely on. The method never raises: \<^verbatim>\<open>except Exception\<close> logs and returns the
  fallback as JSON text.
\<close>

definition call_llm :: "pylib \<Rightarrow> completion \<Rightarrow> string \<times> event list" where
  "call_llm lib reply =
     (case reply of
        CompletionContent s \<Rightarrow> (s, [])
      | CompletionRaised e \<Rightarrow>
          (json_dumps lib (llm_fallback lib e),
           [Logged ERROR (msg_llm_failed @ str_exn lib e)]))"

subsection \<open>\<^verbatim>\<open>_identify_query_intent\<close>\<close>

text \<open>The statements of the \<^verbatim>\<open>try\<close> after the call of the service.\<close>

definition identify_query_intent_body :: "pylib \<Rightarrow> string \<Rightarrow> exn + reasoning_step" where
  "identify_query_intent_body lib response =
     bind_exn (json_loads lib response) (\<lambda>intent_result.
     bind_exn (as_dict intent_result) (\<lambda>d.
       Inr \<lparr>step_id = 1,
            description = txt_intent @ py_str lib (dict_get d ''query_type'' (VStr txt_unknown)),
            data_source = ''llm'',
            result = IntentPayload d,
            step_confidence = 8 / 10\<rparr>))"

definition identify_query_intent ::
  "pylib \<Rightarrow> world \<Rightarrow> query_request \<Rightarrow> reasoning_step \<times> event list" where
  "identify_query_intent lib w request =
     (case call_llm lib (completion_intent w) of (response, evs) \<Rightarrow>
        (case identify_query_intent_body lib response of
           Inr step \<Rightarrow> (step, evs)
         | Inl e \<Rightarrow>
             (\<lparr>step_id = 1,
               description = msg_intent_failed @ str_exn lib e,
               data_source = ''llm'',
               result = IntentPayload [],
               step_confidence = 0\<rparr>,
              evs @ [Logged ERROR (msg_intent_failed @ str_exn lib e)])))"

subsection \<open>\<^verbatim>\<open>_execute_graph_query\<close>\<close>

text \<open>
  The relationship branch turns each dict of the Neo4j adapter into a path. The keys
  \<^verbatim>\<open>id\<close>, \<^verbatim>\<open>name\<close> and \<^verbatim>\<open>labels\<close> are always there, so the defaults of \<^verbatim>\<open>node.get\<close> are
  never used; \<^verbatim>\<open>labels[0]\<close> raises on a node without labels.
\<close>

definition node_entity :: "node_dict \<Rightarrow> exn + entity" where
  "node_entity node =
     bind_exn (first_label (nd_labels node)) (\<lambda>label.
       Inr \<lparr>ent_id = nd_id node, ent_name = nd_name node, ent_type = VStr label,
            ent_properties = []\<rparr>)"

definition relationship_path :: "path_dict \<Rightarrow> exn + query_path" where
  "relationship_path r =
     bind_exn (map_exn node_entity (pd_nodes r)) (\<lambda>es.
       Inr \<lparr>entities = es,
            relations = map row_relation (pd_relationships r),
            confidence = max (1 / 10) (1 - of_int (pd_hop_count r) * (2 / 10)),
            reasoning = txt_multi_hop @ str_of_int (pd_hop_count r)\<rparr>)"

text \<open>The entity-information branch: one path of the entity and its first five neighbours.\<close>

definition neighbor_entity :: "neighbor \<Rightarrow> entity" where
  "neighbor_entity n =
     \<lparr>ent_id = neighbor_name n, ent_name = neighbor_name n,
      ent_type = (case neighbor_labels n of [] \<Rightarrow> VStr ''Unknown'' | l # _ \<Rightarrow> VStr l),
      ent_properties = [(''distance'', distance n)]\<rparr>"

definition entity_info_paths :: "query_request \<Rightarrow> neighbors_dict \<Rightarrow> query_path list" where
  "entity_info_paths request neighbors =
     (if nb_neighbors neighbors \<noteq> [] then
        [\<lparr>entities =
            \<lparr>ent_id = VStr (entity request), ent_name = VStr (entity request),
             ent_type = VStr ''Entity'', ent_properties = []\<rparr> #
            map neighbor_entity (take 5 (nb_neighbors neighbors)),
          relations = [],
          confidence = 7 / 10,
          reasoning = txt_entity @ entity request @ txt_neighbours\<rparr>]
      else [])"

text \<open>
  The \<^verbatim>\<open>if\<close>/\<^verbatim>\<open>elif\<close> chain of the \<^verbatim>\<open>try\<close>: the value is \<^verbatim>\<open>paths\<close>, or the exception that
  leaves the chain. The chain has no \<^verbatim>\<open>else\<close>: with any other member no branch is
  entered and \<^verbatim>\<open>paths\<close> is still the empty list it was set to.
\<close>

definition graph_query_paths ::
  "pylib \<Rightarrow> world \<Rightarrow> query_request \<Rightarrow> (exn + query_path list) \<times> event list" where
  "graph_query_paths lib w request =
     (case query_type request of
        SHAREHOLDER \<Rightarrow>
          (case find_shareholders lib w (entity request) (max_hops request) of
             (ps, evs) \<Rightarrow> (Inr ps, evs))
      | CONTROL_CHAIN \<Rightarrow>
          (case find_controlling_shareholder lib w (entity request) of
             (controlling, evs) \<Rightarrow>
               (Inr (case controlling of Some p \<Rightarrow> [p] | None \<Rightarrow> []), evs))
      | RELATIONSHIP \<Rightarrow>
          (case find_multi_hop_relationships w (entity request) ''HOLDS'' (max_hops request) of
             (multi_hop_results, evs) \<Rightarrow>
               (bind_exn multi_hop_results (map_exn relationship_path), evs))
      | ENTITY_INFO \<Rightarrow>
          (case get_entity_neighbors w (entity request) 2 of
             (neighbors, evs) \<Rightarrow>
               (bind_exn neighbors (\<lambda>n. Inr (entity_info_paths request n)), evs))
      | OTHER v \<Rightarrow> (Inr [], []))"

definition execute_graph_query ::
  "pylib \<Rightarrow> world \<Rightarrow> query_request \<Rightarrow> reasoning_step \<times> event list" where
  "execute_graph_query lib w request =
     (case graph_query_paths lib w request of
        (Inr ps, evs) \<Rightarrow>
          (\<lparr>step_id = 2,
            description = txt_graph_done @ str_of_nat (length ps) @ txt_paths,
            data_source = ''graph'',
            result = GraphPayload ps,
            step_confidence = (if ps \<noteq> [] then 9 / 10 else 1 / 10)\<rparr>,
           evs)
      | (Inl e, evs) \<Rightarrow>
          (\<lparr>step_id = 2,
            description = msg_graph_failed @ str_exn lib e,
            data_source = ''graph'',
            result = GraphPayload [],
            step_confidence = 0\<rparr>,
           evs @ [Logged ERROR (msg_graph_failed @ str_exn lib e)]))"

subsection \<open>\<^verbatim>\<open>_integrate_and_reason\<close>\<close>

text \<open>
  The two nested loops add every entity name, then every relation type, of every path to
  a set. Only a name can be unhashable, and the first such name in the order of the
  loops raises.
\<close>

definition path_names :: "query_path list \<Rightarrow> pyval list" where
  "path_names ps = concat (map (\<lambda>p. map ent_name (entities p)) ps)"

definition path_relation_types :: "query_path list \<Rightarrow> string list" where
  "path_relation_types ps = concat (map (\<lambda>p. map relation_type (relations p)) ps)"

definition integrate_body :: "query_path list \<Rightarrow> exn + reasoning_step" where
  "integrate_body ps =
     bind_exn (map_exn hash_key (path_names ps)) (\<lambda>names.
     bind_exn (py_div (sum_list (map confidence ps)) (of_nat (length ps))) (\<lambda>avg_confidence.
       Inr \<lparr>step_id = 3,
            description = txt_integrated @ str_of_nat (card (set names)) @ txt_entities,
            data_source = ''integration'',
            result =
              IntegratedPayload
                \<lparr>total_paths = length ps,
                 high_confidence_paths = filter (\<lambda>p. 7 / 10 < confidence p) ps,
                 entities_involved = set names,
                 relationship_types = set (path_relation_types ps)\<rparr>
                ps,
            step_confidence = avg_confidence\<rparr>))"

definition integrate_and_reason ::
  "pylib \<Rightarrow> query_request \<Rightarrow> step_payload \<Rightarrow> reasoning_step \<times> event list" where
  "integrate_and_reason lib request graph_results =
     (let ps = payload_paths graph_results in
      if ps = [] then
        (\<lparr>step_id = 3,
          description = txt_no_path,
          data_source = ''integration'',
          result = NoInformation,
          step_confidence = 0\<rparr>,
         [])
      else
        (case integrate_body ps of
           Inr step \<Rightarrow> (step, [])
         | Inl e \<Rightarrow>
             (\<lparr>step_id = 3,
               description = msg_integration_failed @ str_exn lib e,
               data_source = ''integration'',
               result = IntegrationFailed,
               step_confidence = 0\<rparr>,
              [Logged ERROR (msg_integration_failed @ str_exn lib e)])))"

subsection \<open>\<^verbatim>\<open>_generate_final_answer\<close>\<close>

text \<open>The dict the method returns.\<close>

record final_answer =
  fa_answer :: pyval
  fa_confidence :: rat
  fa_explanation :: pyval

text \<open>
  The statements of the \<^verbatim>\<open>try\<close> after the call of the service. Before it the method
  only formats fields of the request and of the steps into the prompt, which cannot
  raise: every member of the enumeration has a \<^verbatim>\<open>value\<close>.
\<close>

definition generate_final_answer_body :: "pylib \<Rightarrow> string \<Rightarrow> exn + final_answer" where
  "generate_final_answer_body lib response =
     bind_exn (json_loads lib response) (\<lambda>decoded.
     bind_exn (as_dict decoded) (\<lambda>d.
     bind_exn (py_float lib (dict_get d ''confidence'' (VFloat 0))) (\<lambda>c.
       Inr \<lparr>fa_answer = dict_get d ''answer'' (VStr txt_no_answer),
            fa_confidence = c,
            fa_explanation = dict_get d ''explanation'' (VStr txt_no_explanation)\<rparr>)))"

definition generate_final_answer ::
  "pylib \<Rightarrow> world \<Rightarrow> query_request \<Rightarrow> reasoning_step list \<Rightarrow> final_answer \<times> event list" where
  "generate_final_answer lib w request steps =
     (case call_llm lib (completion_answer w) of (response, evs) \<Rightarrow>
        (case generate_final_answer_body lib response of
           Inr fa \<Rightarrow> (fa, evs)
         | Inl e \<Rightarrow>
             (\<lparr>fa_answer = VStr (txt_answer_failed @ str_exn lib e),
               fa_confidence = 0,
               fa_explanation = VStr txt_system_error\<rparr>,
              evs @ [Logged ERROR (msg_final_failed @ str_exn lib e)])))"

subsection \<open>\<^verbatim>\<open>process_query\<close>\<close>

text \<open>
  The statements of the \<^verbatim>\<open>try\<close> up to the final answer: the list \<^verbatim>\<open>reasoning_steps\<close> gets
  the steps of the first three stages appended; the fourth stage returns a dict, which
  is not appended.
\<close>

record pipeline =
  pl_reasoning_steps :: "reasoning_step list"
  pl_step2 :: reasoning_step
  pl_final_answer :: final_answer

definition run_stages :: "pylib \<Rightarrow> world \<Rightarrow> query_request \<Rightarrow> pipeline \<times> event list" where
  "run_stages lib w request =
     (case identify_query_intent lib w request of (step1, evs1) \<Rightarrow>
      case execute_graph_query lib w request of (step2, evs2) \<Rightarrow>
      case integrate_and_reason lib request (result step2) of (step3, evs3) \<Rightarrow>
      case generate_final_answer lib w request [step1, step2, step3] of (fa, evs4) \<Rightarrow>
        (\<lparr>pl_reasoning_steps = [step1, step2, step3], pl_step2 = step2,
          pl_final_answer = fa\<rparr>,
         evs1 @ evs2 @ evs3 @ evs4))"

text \<open>
  The result the \<^verbatim>\<open>try\<close> builds, with the two lines it logs around the stages. None of
  the four stage methods raises (each has its own \<^verbatim>\<open>except Exception\<close> that returns),
  and the rest of the \<^verbatim>\<open>try\<close> reads fields that exist; so the \<^verbatim>\<open>except\<close> of
  \<^verbatim>\<open>process_query\<close>, whose result is \<open>query_failed\<close>, is not entered.
\<close>

definition process_query :: "pylib \<Rightarrow> world \<Rightarrow> query_request \<Rightarrow> query_result \<times> event list" where
  "process_query lib w request =
     (case run_stages lib w request of (pl, evs) \<Rightarrow>
        (\<lparr>result_query = query request,
          result_query_type = query_type request,
          paths = payload_paths (result (pl_step2 pl)),
          answer = fa_answer (pl_final_answer pl),
          result_confidence = fa_confidence (pl_final_answer pl),
          reasoning_steps = map description (pl_reasoning_steps pl),
          execution_time = elapsed w,
          metadata =
            [(''entity'', VStr (entity request)),
             (''max_hops'', VInt (max_hops request)),
             (''steps_count'', VInt (int (length (pl_reasoning_steps pl)))),
             (''graph_results_count'',
              VInt (int (length (payload_paths (result (pl_step2 pl))))))]\<rparr>,
         Logged INFO (msg_start @ query request) # evs @
         [Logged INFO (msg_done @ format_2f lib (elapsed w) @ txt_seconds)]))"

definition query_failed :: "pylib \<Rightarrow> world \<Rightarrow> query_request \<Rightarrow> exn \<Rightarrow> query_result" where
  "query_failed lib w request e =
     \<lparr>result_query = query request,
      result_query_type = query_type request,
      paths = [],
      answer = VStr (msg_query_failed @ str_exn lib e),
      result_confidence = 0,
      reasoning_steps = [txt_error @ str_exn lib e],
      execution_time = elapsed w,
      metadata = [(''error'', VStr (str_exn lib e))]\<rparr>"

subsection \<open>\<^verbatim>\<open>get_query_statistics\<close>\<close>

text \<open>
  The entry of one query type in \<^verbatim>\<open>query_type_stats\<close>. During the first loop the key
  \<^verbatim>\<open>success_rate\<close> holds the number of successful results, the second loop replaces it
  by the rate.
\<close>

record type_stats =
  count :: nat
  success_rate :: rat

type_synonym type_stats_dict = "(string \<times> type_stats) list"

text \<open>\<^verbatim>\<open>stats[k][field] += 1\<close> on a key that is there.\<close>

definition stats_update ::
  "string \<Rightarrow> (type_stats \<Rightarrow> type_stats) \<Rightarrow> type_stats_dict \<Rightarrow> type_stats_dict" where
  "stats_update k f stats = map (\<lambda>(k', s). if k' = k then (k', f s) else (k', s)) stats"

text \<open>The first loop over the results.\<close>

fun tally :: "query_result list \<Rightarrow> type_stats_dict \<Rightarrow> type_stats_dict" where
  "tally [] stats = stats"
| "tally (r # rs) stats =
     (let qt = query_type_value (result_query_type r);
          stats1 = (if map_of stats qt = None
                    then stats @ [(qt, \<lparr>count = 0, success_rate = 0\<rparr>)] else stats);
          stats2 = stats_update qt (\<lambda>s. s\<lparr>count := count s + 1\<rparr>) stats1;
          stats3 = (if 1 / 2 < result_confidence r
                    then stats_update qt (\<lambda>s. s\<lparr>success_rate := success_rate s + 1\<rparr>) stats2
                    else stats2)
      in tally rs stats3)"

text \<open>The body of the second loop.\<close>

definition rate_of :: "string \<times> type_stats \<Rightarrow> exn + string \<times> type_stats" where
  "rate_of entry =
     (case entry of (k, s) \<Rightarrow>
        if 0 < count s
        then bind_exn (py_div (success_rate s) (of_nat (count s)))
               (\<lambda>q. Inr (k, s\<lparr>success_rate := q\<rparr>))
        else Inr (k, s\<lparr>success_rate := 0\<rparr>))"

text \<open>The dict the method returns for a list that is not empty; \<open>None\<close> is \<^verbatim>\<open>{}\<close>.\<close>

record statistics =
  total_queries :: nat
  successful_queries :: nat
  overall_success_rate :: rat
  average_confidence :: rat
  average_execution_time :: rat
  query_type_statistics :: type_stats_dict

definition get_query_statistics :: "query_result list \<Rightarrow> exn + statistics option" where
  "get_query_statistics results =
     (if results = [] then Inr None
      else
        (let total = length results;
             successful = length (filter (\<lambda>r. 1 / 2 < result_confidence r) results)
         in
           bind_exn (py_div (sum_list (map result_confidence results)) (of_nat total))
             (\<lambda>avg_confidence.
           bind_exn (py_div (sum_list (map execution_time results)) (of_nat total))
             (\<lambda>avg_execution_time.
           bind_exn (map_exn rate_of (tally results [])) (\<lambda>query_type_stats.
           bind_exn (py_div (of_nat successful) (of_nat total)) (\<lambda>rate.
             Inr (Some \<lparr>total_queries = total,
                        successful_queries = successful,
                        overall_success_rate = rate,
                        average_confidence = avg_confidence,
                        average_execution_time = avg_execution_time,
                        query_type_statistics = query_type_stats\<rparr>)))))))"

section \<open>The scorer as the specification words it\<close>

text \<open>The two properties of a relation the scorer reads.\<close>

definition percentage_of :: "relation \<Rightarrow> pyval" where
  "percentage_of r = dict_get (rel_properties r) ''percentage'' (VInt 0)"

fun is_number :: "pyval \<Rightarrow> bool" where
  "is_number (VInt i) = True"
| "is_number (VFloat f) = True"
| "is_number (VBool b) = True"
| "is_number v = False"

definition exceeds_50 :: "relation \<Rightarrow> bool" where
  "exceeds_50 r = (py_gt_int (percentage_of r) 50 = Inr True)"

definition is_controlling :: "relation \<Rightarrow> bool" where
  "is_controlling r = (dict_get (rel_properties r) ''control_type'' VNone = VStr ''controlling'')"

text \<open>
  Section 4.2 of the specification: the base \<^verbatim>\<open>max(0.1, 1.0 - (hopCount - 1) * 0.2)\<close>,
  plus 0.1 for each relation whose percentage exceeds 50, plus 0.15 for each relation
  whose control type is "controlling", and \<^verbatim>\<open>min(1.0, base + sum of bonuses)\<close>.
\<close>

definition score_path_spec :: "int \<Rightarrow> relation list \<Rightarrow> rat" where
  "score_path_spec h rs =
     min 1 (max (1 / 10) (1 - (of_int h - 1) * (2 / 10))
            + of_nat (length (filter exceeds_50 rs)) * (1 / 10)
            + of_nat (length (filter is_controlling rs)) * (15 / 100))"

section \<open>Example data\<close>

text \<open>
  A small store and service for the examples below. The library functions are tables
  that agree with Python on the arguments the examples reach: \<^verbatim>\<open>json.loads\<close> on three
  texts (and its \<^verbatim>\<open>JSONDecodeError\<close> on \<^verbatim>\<open>not json\<close>), \<^verbatim>\<open>json.dumps\<close> on one dict, and
  \<^verbatim>\<open>:.2f\<close> on a quarter of a second.
\<close>

definition intent_json :: string where
  "intent_json =
     ''{'' @ [CHR 0x22] @ ''query_type'' @ [CHR 0x22] @ '': '' @ [CHR 0x22] @
     ''shareholder'' @ [CHR 0x22] @ ''}''"

definition answer_json :: string where
  "answer_json =
     ''{'' @ [CHR 0x22] @ ''answer'' @ [CHR 0x22] @ '': '' @ [CHR 0x22] @ ''A'' @ [CHR 0x22]
     @ '', '' @ [CHR 0x22] @ ''confidence'' @ [CHR 0x22] @ '': 0.9}''"


text \<open>The fallback dict of \<^verbatim>\<open>_call_llm\<close> for that exception, and its JSON text.\<close>

definition fallback_dict :: pyval where
  "fallback_dict =
     VDict [(''error'', VStr (msg_llm_failed @ ''Connection error.'')),
            (''answer'', VStr txt_cannot_process),
            (''confidence'', VFloat 0),
            (''explanation'', VStr txt_llm_unavailable)]"

definition fallback_json :: string where
  "fallback_json =
     ''{'' @ [CHR 0x22] @ ''error'' @ [CHR 0x22] @ '': '' @ [CHR 0x22] @ ''LLM'' @
     [CHR 0x5C] @ ''u8c03'' @ [CHR 0x5C] @ ''u7528'' @ [CHR 0x5C] @ ''u5931'' @ [CHR 0x5C] @
     ''u8d25: Connection error.'' @ [CHR 0x22] @ '', '' @ [CHR 0x22] @ ''answer'' @
     [CHR 0x22] @ '': '' @ [CHR 0x22, CHR 0x5C] @ ''u7cfb'' @ [CHR 0x5C] @ ''u7edf'' @
     [CHR 0x5C] @ ''u6682'' @ [CHR 0x5C] @ ''u65f6'' @ [CHR 0x5C] @ ''u65e0'' @ [CHR 0x5C] @
     ''u6cd5'' @ [CHR 0x5C] @ ''u5904'' @ [CHR 0x5C] @ ''u7406'' @ [CHR 0x5C] @ ''u8be5'' @
     [CHR 0x5C] @ ''u67e5'' @ [CHR 0x5C] @ ''u8be2'' @ [CHR 0x22] @ '', '' @ [CHR 0x22] @
     ''confidence'' @ [CHR 0x22] @ '': 0.0, '' @ [CHR 0x22] @ ''explanation'' @ [CHR 0x22] @
     '': '' @ [CHR 0x22] @ ''LLM'' @ [CHR 0x5C] @ ''u670d'' @ [CHR 0x5C] @ ''u52a1'' @
     [CHR 0x5C] @ ''u4e0d'' @ [CHR 0x5C] @ ''u53ef'' @ [CHR 0x5C] @ ''u7528'' @ [CHR 0x22] @
     ''}''"

definition decode_error :: exn where
  "decode_error = Failed JSONDecodeError ''Expecting value: line 1 column 1 (char 0)''"

definition lib0 :: pylib where
  "lib0 =
     \<lparr>json_loads =
        (\<lambda>s. if s = intent_json then Inr (VDict [(''query_type'', VStr ''shareholder'')])
             else if s = answer_json
             then Inr (VDict [(''answer'', VStr ''A''), (''confidence'', VFloat (9 / 10))])
             else if s = fallback_json then Inr fallback_dict
             else Inl decode_error),
      json_dumps = (\<lambda>v. if v = fallback_dict then fallback_json else ''''),
      float_of_str = (\<lambda>s. None),
      repr_val = (\<lambda>v. ''''),
      format_2f = (\<lambda>x. if x = 1 / 4 then ''0.25'' else ''''),
      exn_text = (\<lambda>c v. '''')\<rparr>"

text \<open>
  The store: the company Acme has two shareholders one hop away, Founder with 60 per
  cent and the control flag, and Fund with 8 per cent; the Neo4j adapter's session is
  down.
\<close>

definition founder_edge :: pydict where
  "founder_edge = [(''percentage'', VInt 60), (''control_type'', VStr ''controlling'')]"

definition founder_row :: shareholder_row where
  "founder_row =
     \<lparr>row_entities = [(VStr ''c1'', VStr ''Acme'', VStr ''Company''),
                      (VStr ''s1'', VStr ''Founder'', VStr ''Person'')],
      row_relations = [(''SHAREHOLDER'', founder_edge)],
      row_hops = 1\<rparr>"

definition fund_row :: shareholder_row where
  "fund_row =
     \<lparr>row_entities = [(VStr ''c1'', VStr ''Acme'', VStr ''Company''),
                      (VStr ''s2'', VStr ''Fund'', VStr ''Organization'')],
      row_relations = [(''SHAREHOLDER'', [(''percentage'', VInt 8)])],
      row_hops = 1\<rparr>"

definition founder_single :: controlling_row where
  "founder_single =
     \<lparr>row_s = \<lparr>node_labels = [''Person''],
               node_properties = [(''id'', VStr ''s1''), (''name'', VStr ''Founder'')]\<rparr>,
      row_r = \<lparr>edge_type = ''SHAREHOLDER'', edge_properties = founder_edge\<rparr>\<rparr>"

definition store_down :: exn where
  "store_down = Failed StoreError ''Unable to retrieve routing information''"

definition acme_neighbor :: neighbor where
  "acme_neighbor =
     \<lparr>neighbor_name = VStr ''Founder'', neighbor_labels = [''Person''],
      relationship_type = VStr ''SHAREHOLDER'', distance = VInt 1\<rparr>"

definition world0 :: world where
  "world0 =
     \<lparr>shareholder_cursor =
        (\<lambda>name hops. if name = ''Acme'' \<and> 1 \<le> hops then ([founder_row, fund_row], None)
                      else ([], None)),
      controlling_single = (\<lambda>name. if name = ''Acme'' then Inr (Some founder_single) else Inr None),
      multi_hop_cursor = (\<lambda>start rel hops. ([], Some store_down)),
      neighbor_cursor = (\<lambda>name. if name = ''Acme'' then ([acme_neighbor], None) else ([], None)),
      completion_intent = CompletionContent ''not json'',
      completion_answer = CompletionContent answer_json,
      elapsed = 1 / 4\<rparr>"





definition request0 :: query_request where
  "request0 =
     \<lparr>query = ''Who controls Acme?'', query_type = SHAREHOLDER, entity = ''Acme'',
      max_hops = 3, similarity_threshold = 7 / 10, context_dict = None\<rparr>"

text \<open>Two results for the statistics.\<close>

definition result_good :: query_result where
  "result_good =
     \<lparr>result_query = ''q1'', result_query_type = SHAREHOLDER, paths = [],
      answer = VStr ''A'', result_confidence = 9 / 10, reasoning_steps = [],
      execution_time = 2, metadata = []\<rparr>"

definition result_poor :: query_result where
  "result_poor =
     \<lparr>result_query = ''q2'', result_query_type = RELATIONSHIP, paths = [],
      answer = VStr ''B'', result_confidence = 0, reasoning_steps = [],
      execution_time = 1, metadata = []\<rparr>"

text \<open>Three relations: majority and control flag, neither, and the control flag alone.\<close>

definition founder_relation :: relation where
  "founder_relation = row_relation (''SHAREHOLDER'', founder_edge)"

definition fund_relation :: relation where
  "fund_relation = row_relation (''SHAREHOLDER'', [(''percentage'', VInt 8)])"

definition flagged_relation :: relation where
  "flagged_relation =
     row_relation (''SHAREHOLDER'', [(''percentage'', VInt 30), (''control_type'', VStr ''controlling'')])"

text \<open>A relation whose percentage is a text.\<close>

definition text_relation :: relation where
  "text_relation = row_relation (''SHAREHOLDER'', [(''percentage'', VStr ''60%'')])"

definition acme_entity :: entity where
  "acme_entity = row_entity (VStr ''c1'', VStr ''Acme'', VStr ''Company'')"

section \<open>Counting results by query type\<close>

definition successful :: "query_result \<Rightarrow> bool" where
  "successful r = (1 / 2 < result_confidence r)"

definition of_type :: "string \<Rightarrow> query_result \<Rightarrow> bool" where
  "of_type k r = (query_type_value (result_query_type r) = k)"

definition count_type :: "string \<Rightarrow> query_result list \<Rightarrow> nat" where
  "count_type k rs = length (filter (of_type k) rs)"

definition count_successful :: "string \<Rightarrow> query_result list \<Rightarrow> nat" where
  "count_successful k rs = length (filter (\<lambda>r. of_type k r \<and> successful r) rs)"

text \<open>What the second loop of \<^verbatim>\<open>get_query_statistics\<close> makes of one entry.\<close>

definition entry_rate :: "string \<times> type_stats \<Rightarrow> string \<times> type_stats" where
  "entry_rate entry =
     (case entry of (k, s) \<Rightarrow>
        (k, s\<lparr>success_rate := (if 0 < count s then success_rate s / of_nat (count s) else 0)\<rparr>))"

text \<open>Requests of the other query types, and one with no hops allowed.\<close>

definition request_control :: query_request where
  "request_control = request0\<lparr>query_type := CONTROL_CHAIN\<rparr>"

definition request_relationship :: query_request where
  "request_relationship = request0\<lparr>query_type := RELATIONSHIP\<rparr>"

definition request_entity_info :: query_request where
  "request_entity_info = request0\<lparr>query_type := ENTITY_INFO\<rparr>"

definition request_other :: query_request where
  "request_other = request0\<lparr>query_type := OTHER ''ownership''\<rparr>"

definition request_zero_hops :: query_request where
  "request_zero_hops = request0\<lparr>max_hops := 0\<rparr>"









section \<open>The confidence scorer\<close>

lemma relation_bonus_value:
  "\<forall>r\<in>set rs. is_number (percentage_of r) \<Longrightarrow>
   relation_bonus rs b =
     Inr (b + of_nat (length (filter exceeds_50 rs)) * (1 / 10)
            + of_nat (length (filter (\<lambda>r. \<not> exceeds_50 r \<and> is_controlling r) rs)) * (15 / 100))"
proof (induction rs arbitrary: b)
  case Nil
  then show ?case by simp
next
  case (Cons r rs)
  then have num: "is_number (percentage_of r)"
    and rest: "\<forall>r\<in>set rs. is_number (percentage_of r)"
    by simp_all
  from num obtain m where gt: "py_gt_int (percentage_of r) 50 = Inr m"
    by (cases "percentage_of r") simp_all
  show ?case
  proof (cases m)
    case True
    with gt have "exceeds_50 r" by (simp add: exceeds_50_def)
    with gt True Cons.IH[OF rest] show ?thesis
      by (simp add: percentage_of_def algebra_simps)
  next
    case False
    with gt have "\<not> exceeds_50 r" by (simp add: exceeds_50_def)
    with gt False Cons.IH[OF rest] show ?thesis
      by (simp add: percentage_of_def is_controlling_def algebra_simps)
  qed
qed

lemma base_confidence_bounds: "1 / 10 \<le> base_confidence h"
  by (simp add: base_confidence_def)

text \<open>
  A percentage that is not a number: the comparison raises, and so does the scorer. Here
  the first relation has a text as its percentage.
\<close>

lemma text_percentage_raises:
  "percentage_of r = VStr s \<Longrightarrow>
   calculate_path_confidence h (r # rs) = Inl (Raised TypeError (VStr s))"
  by (simp add: calculate_path_confidence_def percentage_of_def)

lemma text_percentage_example:
  "calculate_path_confidence 1 [text_relation] = Inl (Raised TypeError (VStr ''60%''))"
  by (rule text_percentage_raises)
     (simp add: percentage_of_def text_relation_def row_relation_def dict_get_def)

text \<open>
  C2. For every hop count \<open>h \<ge> 1\<close>, the score of a path without relations is
  \<open>max 0.1 (1.0 - (h - 1) * 0.2)\<close>; one hop scores 1.0, three hops score 0.6; and the
  score does not increase with the hop count.
\<close>

theorem scorer_no_bonus:
  assumes "1 \<le> h" and "h \<le> h'"
  shows "calculate_path_confidence h [] = Inr (max (1 / 10) (1 - (of_int h - 1) * (2 / 10))) \<and>
         calculate_path_confidence 1 [] = Inr 1 \<and>
         calculate_path_confidence 3 [] = Inr (6 / 10) \<and>
         (\<exists>c c'. calculate_path_confidence h [] = Inr c \<and>
                  calculate_path_confidence h' [] = Inr c' \<and> c' \<le> c)"
  using assms by (simp add: calculate_path_confidence_def base_confidence_def max_def)

text \<open>Three hops against seven: 0.6, and the floor 0.1.\<close>

theorem scorer_no_bonus_witness:
  "(1::int) \<le> 3 \<and> (3::int) \<le> 7 \<and>
   calculate_path_confidence 3 [] = Inr (6 / 10) \<and>
   calculate_path_confidence 7 [] = Inr (1 / 10)"
  using scorer_no_bonus[of 3 7]
  by (simp add: calculate_path_confidence_def base_confidence_def)

text \<open>
  C3, as the code has it. For every hop count and every relation list whose percentages
  are numbers, the score is the base confidence plus 0.1 for each relation whose
  percentage exceeds 50, plus 0.15 for each relation whose percentage does not exceed 50
  and whose control type is "controlling", cut off at 1.0; it lies between 0.1 and 1.0.
\<close>

theorem scorer_bonus_and_clamp:
  assumes "\<forall>r\<in>set rs. is_number (percentage_of r)"
  shows "\<exists>c. calculate_path_confidence h rs = Inr c \<and>
             c = min 1 (base_confidence h
                        + of_nat (length (filter exceeds_50 rs)) * (1 / 10)
                        + of_nat (length (filter (\<lambda>r. \<not> exceeds_50 r \<and> is_controlling r) rs))
                          * (15 / 100)) \<and>
             1 / 10 \<le> c \<and> c \<le> 1"
proof -
  define a :: rat where "a = of_nat (length (filter exceeds_50 rs)) * (1 / 10)"
  define b :: rat where
    "b = of_nat (length (filter (\<lambda>r. \<not> exceeds_50 r \<and> is_controlling r) rs)) * (15 / 100)"
  have nonneg: "0 \<le> a" "0 \<le> b" by (simp_all add: a_def b_def)
  have "relation_bonus rs 0 = Inr (0 + a + b)"
    unfolding a_def b_def by (rule relation_bonus_value[OF assms])
  then have val: "calculate_path_confidence h rs = Inr (min 1 (base_confidence h + a + b))"
    by (simp add: calculate_path_confidence_def add.assoc)
  have "1 / 10 \<le> base_confidence h" by (rule base_confidence_bounds)
  with nonneg have lower: "1 / 10 \<le> min 1 (base_confidence h + a + b)" by simp
  have upper: "min 1 (base_confidence h + a + b) \<le> 1" by simp
  from val lower upper show ?thesis unfolding a_def b_def by blast
qed

text \<open>
  Three hops over a majority holder with the control flag, a small holder, and a holder
  with the control flag alone: 0.6 + 0.1 + 0.15.
\<close>

theorem scorer_bonus_and_clamp_witness:
  "is_number (percentage_of founder_relation) \<and>
   is_number (percentage_of fund_relation) \<and>
   is_number (percentage_of flagged_relation) \<and>
   calculate_path_confidence 3 [founder_relation, fund_relation, flagged_relation]
     = Inr (85 / 100)"
proof -
  have numbers:
    "\<forall>r\<in>set [founder_relation, fund_relation, flagged_relation]. is_number (percentage_of r)"
    by (simp add: founder_relation_def fund_relation_def flagged_relation_def row_relation_def
        founder_edge_def dict_get_def percentage_of_def)
  have direct:
    "calculate_path_confidence 3 [founder_relation, fund_relation, flagged_relation]
       = Inr (85 / 100)"
    by (simp add: calculate_path_confidence_def founder_relation_def fund_relation_def
        flagged_relation_def row_relation_def founder_edge_def dict_get_def base_confidence_def)
  from scorer_bonus_and_clamp[OF numbers, of 3] direct numbers show ?thesis by simp
qed

text \<open>
  C3 as the specification words it gives both bonuses to a relation that has both
  properties; the code's second test is an \<^verbatim>\<open>elif\<close>. Three hops over the majority holder
  with the control flag: the code scores 0.7, the specification's sum is 0.85.
\<close>

theorem scorer_double_bonus_counterexample:
  "calculate_path_confidence 3 [founder_relation] = Inr (7 / 10) \<and>
   score_path_spec 3 [founder_relation] = 85 / 100"
  by (simp add: calculate_path_confidence_def base_confidence_def founder_relation_def
      row_relation_def founder_edge_def dict_get_def score_path_spec_def exceeds_50_def
      is_controlling_def percentage_of_def)

section \<open>The reasoning text\<close>

lemma dash_join:
  "ps \<noteq> [] \<Longrightarrow> \<forall>p\<in>set ps. CHR ''-'' \<in> set p \<Longrightarrow> CHR ''-'' \<in> set (join sep ps)"
  by (induction sep ps rule: join.induct) auto

lemma dash_loop: "\<forall>p\<in>set (reasoning_loop lib es rs ies). CHR ''-'' \<in> set p"
  by (induction lib es rs ies rule: reasoning_loop.induct) (auto simp: reasoning_part_def)

lemma no_dash_sentinel: "CHR ''-'' \<notin> set no_reasoning_path"
  by (simp add: no_reasoning_path_def)

lemma join_not_sentinel: "join '' -> '' (reasoning_loop lib es rs ies) \<noteq> no_reasoning_path"
proof (cases "reasoning_loop lib es rs ies = []")
  case True
  then show ?thesis by (simp add: no_reasoning_path_def)
next
  case False
  then have "CHR ''-'' \<in> set (join '' -> '' (reasoning_loop lib es rs ies))"
    using dash_join dash_loop by blast
  then show ?thesis using no_dash_sentinel by metis
qed

text \<open>
  C10. With exactly one entity and at least one relation \<^verbatim>\<open>_generate_reasoning\<close> returns
  the empty string. The sentinel is returned exactly when one of the two lists is empty;
  lists that are not empty and pair no entity with a relation and a next entity give the
  empty string.
\<close>

theorem reasoning_single_entity:
  "(length es = 1 \<and> rs \<noteq> [] \<longrightarrow> generate_reasoning lib es rs = []) \<and>
   (generate_reasoning lib es rs = no_reasoning_path \<longleftrightarrow> es = [] \<or> rs = []) \<and>
   (es \<noteq> [] \<and> rs \<noteq> [] \<and> reasoning_loop lib es rs (enumerate_list (butlast es)) = []
      \<longrightarrow> generate_reasoning lib es rs = [])"
proof (intro conjI impI)
  assume "length es = 1 \<and> rs \<noteq> []"
  then obtain e where "es = [e]" and "rs \<noteq> []"
    by (cases es) auto
  then show "generate_reasoning lib es rs = []"
    by (simp add: generate_reasoning_def enumerate_list_def)
next
  show "generate_reasoning lib es rs = no_reasoning_path \<longleftrightarrow> es = [] \<or> rs = []"
    using join_not_sentinel by (auto simp: generate_reasoning_def)
next
  assume "es \<noteq> [] \<and> rs \<noteq> [] \<and> reasoning_loop lib es rs (enumerate_list (butlast es)) = []"
  then show "generate_reasoning lib es rs = []"
    by (simp add: generate_reasoning_def)
qed

text \<open>One entity and one relation; no entity; no relation.\<close>

theorem reasoning_single_entity_witness:
  "length [acme_entity] = 1 \<and> [founder_relation] \<noteq> [] \<and>
   generate_reasoning lib0 [acme_entity] [founder_relation] = [] \<and>
   generate_reasoning lib0 [] [founder_relation] = no_reasoning_path \<and>
   generate_reasoning lib0 [acme_entity] [] = no_reasoning_path"
  using reasoning_single_entity[of "[acme_entity]" "[founder_relation]" lib0]
        reasoning_single_entity[of "[]" "[founder_relation]" lib0]
        reasoning_single_entity[of "[acme_entity]" "[]" lib0]
  by simp

section \<open>The statistics\<close>

lemma map_of_stats_update:
  "map_of (stats_update k f stats) k' = (if k' = k then map_option f (map_of stats k) else map_of stats k')"
  by (induction stats) (auto simp: stats_update_def)

lemma keys_stats_update: "map fst (stats_update k f stats) = map fst stats"
  by (induction stats) (auto simp: stats_update_def)

lemma count_type_Cons:
  "count_type k (r # rs) = (if of_type k r then Suc (count_type k rs) else count_type k rs)"
  by (simp add: count_type_def)

lemma count_successful_Cons:
  "count_successful k (r # rs) =
     (if of_type k r \<and> successful r then Suc (count_successful k rs) else count_successful k rs)"
  by (simp add: count_successful_def)

lemma map_of_tally:
  "map_of (tally rs stats) k =
     (case map_of stats k of
        Some s \<Rightarrow> Some \<lparr>count = count s + count_type k rs,
                        success_rate = success_rate s + of_nat (count_successful k rs)\<rparr>
      | None \<Rightarrow> if count_type k rs = 0 then None
                else Some \<lparr>count = count_type k rs, success_rate = of_nat (count_successful k rs)\<rparr>)"
proof (induction rs arbitrary: stats)
  case Nil
  then show ?case by (simp add: count_type_def count_successful_def split: option.splits)
next
  case (Cons r rs)
  show ?case
    by (simp add: Cons.IH Let_def map_of_stats_update count_type_Cons count_successful_Cons
        of_type_def successful_def map_add_def split: option.splits)
qed

lemma keys_tally: "distinct (map fst stats) \<Longrightarrow> distinct (map fst (tally rs stats))"
proof (induction rs arbitrary: stats)
  case Nil
  then show ?case by simp
next
  case (Cons r rs)
  show ?case
    using Cons.prems
    by (auto intro!: Cons.IH simp: Let_def keys_stats_update map_of_eq_None_iff)
qed

lemma rate_of_total: "rate_of entry = Inr (entry_rate entry)"
  by (cases entry) (simp add: rate_of_def entry_rate_def py_div_def bind_exn_def)

lemma map_exn_total: "(\<And>x. f x = Inr (g x)) \<Longrightarrow> map_exn f xs = Inr (map g xs)"
  by (induction xs) simp_all

lemma map_of_rates:
  "map_of (map entry_rate stats) k = map_option (\<lambda>s. s\<lparr>success_rate := (if 0 < count s then success_rate s / of_nat (count s) else 0)\<rparr>) (map_of stats k)"
  by (induction stats) (auto simp: entry_rate_def)

lemma keys_rates: "map fst (map entry_rate stats) = map fst stats"
  by (induction stats) (auto simp: entry_rate_def)

text \<open>
  C9. \<^verbatim>\<open>get_query_statistics\<close> returns the empty dict for the empty list. For a list that
  is not empty it returns, without a division by zero, the number of results, the number
  of results with a confidence above 0.5, their quotient, the mean confidence, the mean
  execution time, and for every query type that occurs one entry with the number of its
  results and the share of them with a confidence above 0.5.
\<close>

theorem statistics_summary:
  "get_query_statistics [] = Inr None \<and>
   (results \<noteq> [] \<longrightarrow>
     (\<exists>s. get_query_statistics results = Inr (Some s) \<and>
          total_queries s = length results \<and>
          successful_queries s = length (filter successful results) \<and>
          overall_success_rate s = of_nat (length (filter successful results)) / of_nat (length results) \<and>
          average_confidence s = sum_list (map result_confidence results) / of_nat (length results) \<and>
          average_execution_time s = sum_list (map execution_time results) / of_nat (length results) \<and>
          distinct (map fst (query_type_statistics s)) \<and>
          (\<forall>k. map_of (query_type_statistics s) k =
                 (if count_type k results = 0 then None
                  else Some \<lparr>count = count_type k results,
                             success_rate = of_nat (count_successful k results) / of_nat (count_type k results)\<rparr>))))"
proof (intro conjI impI)
  show "get_query_statistics [] = Inr None"
    by (simp add: get_query_statistics_def)
next
  assume nonempty: "results \<noteq> []"
  define qts where "qts = map entry_rate (tally results [])"
  have rates: "map_exn rate_of (tally results []) = Inr qts"
    unfolding qts_def by (rule map_exn_total) (rule rate_of_total)
  define s where "s =
    \<lparr>total_queries = length results,
     successful_queries = length (filter successful results),
     overall_success_rate = of_nat (length (filter successful results)) / of_nat (length results),
     average_confidence = sum_list (map result_confidence results) / of_nat (length results),
     average_execution_time = sum_list (map execution_time results) / of_nat (length results),
     query_type_statistics = qts\<rparr>"
  have succ: "filter (\<lambda>r. 1 / 2 < result_confidence r) results = filter successful results"
    by (rule filter_cong) (simp_all add: successful_def)
  have val: "get_query_statistics results = Inr (Some s)"
    using nonempty succ
    by (simp add: get_query_statistics_def Let_def py_div_def bind_exn_def rates s_def)
  have keys: "distinct (map fst qts)"
    unfolding qts_def keys_rates by (rule keys_tally) simp
  have entries: "map_of qts k =
      (if count_type k results = 0 then None
       else Some \<lparr>count = count_type k results,
                  success_rate = of_nat (count_successful k results) / of_nat (count_type k results)\<rparr>)" for k
    unfolding qts_def by (simp add: map_of_rates map_of_tally)
  show "\<exists>s. get_query_statistics results = Inr (Some s) \<and>
          total_queries s = length results \<and>
          successful_queries s = length (filter successful results) \<and>
          overall_success_rate s = of_nat (length (filter successful results)) / of_nat (length results) \<and>
          average_confidence s = sum_list (map result_confidence results) / of_nat (length results) \<and>
          average_execution_time s = sum_list (map execution_time results) / of_nat (length results) \<and>
          distinct (map fst (query_type_statistics s)) \<and>
          (\<forall>k. map_of (query_type_statistics s) k =
                 (if count_type k results = 0 then None
                  else Some \<lparr>count = count_type k results,
                             success_rate = of_nat (count_successful k results) / of_nat (count_type k results)\<rparr>))"
    using val keys entries by (intro exI[of _ s]) (simp add: s_def)
qed


text \<open>Two good shareholder results and one poor relationship result.\<close>

theorem statistics_summary_witness:
  "[result_good, result_poor, result_good] \<noteq> [] \<and>
   get_query_statistics [result_good, result_poor, result_good] =
     Inr (Some \<lparr>total_queries = 3, successful_queries = 2, overall_success_rate = 2 / 3,
                average_confidence = 6 / 10, average_execution_time = 5 / 3,
                query_type_statistics =
                  [(''shareholder'', \<lparr>count = 2, success_rate = 1\<rparr>),
                   (''relationship'', \<lparr>count = 1, success_rate = 0\<rparr>)]\<rparr>)"
proof -
  have direct:
    "get_query_statistics [result_good, result_poor, result_good] =
       Inr (Some \<lparr>total_queries = 3, successful_queries = 2, overall_success_rate = 2 / 3,
                  average_confidence = 6 / 10, average_execution_time = 5 / 3,
                  query_type_statistics =
                    [(''shareholder'', \<lparr>count = 2, success_rate = 1\<rparr>),
                     (''relationship'', \<lparr>count = 1, success_rate = 0\<rparr>)]\<rparr>)"
    by (simp add: get_query_statistics_def result_good_def result_poor_def py_div_def
        bind_exn_def stats_update_def rate_of_def)
  from statistics_summary[of "[result_good, result_poor, result_good]"] direct
  show ?thesis by simp
qed

section \<open>The pipeline\<close>

declare str_of_nat.simps [simp del]

lemma str_of_nat_digit: "n < 10 \<Longrightarrow> str_of_nat n = [''0123456789'' ! n]"
  by (simp add: str_of_nat.simps)

subsection \<open>The stages one by one\<close>

lemma intent_body_step:
  "identify_query_intent_body lib response = Inr step \<Longrightarrow>
   step_id step = 1 \<and> data_source step = ''llm''"
  by (auto simp: identify_query_intent_body_def bind_exn_def split: sum.splits)

lemma intent_step:
  "step_id (fst (identify_query_intent lib w request)) = 1 \<and>
   data_source (fst (identify_query_intent lib w request)) = ''llm''"
  using intent_body_step
  by (auto simp: identify_query_intent_def split: prod.splits sum.splits)

lemma graph_step:
  "step_id (fst (execute_graph_query lib w request)) = 2 \<and>
   data_source (fst (execute_graph_query lib w request)) = ''graph''"
  by (auto simp: execute_graph_query_def split: prod.splits sum.splits)

lemma integrate_body_step:
  "integrate_body ps = Inr step \<Longrightarrow> step_id step = 3 \<and> data_source step = ''integration''"
  by (auto simp: integrate_body_def bind_exn_def split: sum.splits)

lemma integrate_step:
  "step_id (fst (integrate_and_reason lib request payload)) = 3 \<and>
   data_source (fst (integrate_and_reason lib request payload)) = ''integration''"
  using integrate_body_step
  by (auto simp: integrate_and_reason_def Let_def split: sum.splits)

lemma run_stages_steps:
  "pl_reasoning_steps (fst (run_stages lib w request)) =
     [fst (identify_query_intent lib w request),
      fst (execute_graph_query lib w request),
      fst (integrate_and_reason lib request (result (fst (execute_graph_query lib w request))))]"
  by (simp add: run_stages_def split: prod.splits)

lemma run_stages_step2:
  "pl_step2 (fst (run_stages lib w request)) = fst (execute_graph_query lib w request)"
  by (simp add: run_stages_def split: prod.splits)

lemma run_stages_final:
  "pl_final_answer (fst (run_stages lib w request)) =
     fst (generate_final_answer lib w request (pl_reasoning_steps (fst (run_stages lib w request))))"
  by (simp add: run_stages_def split: prod.splits)

lemma run_stages_events:
  "snd (run_stages lib w request) =
     snd (identify_query_intent lib w request) @
     snd (execute_graph_query lib w request) @
     snd (integrate_and_reason lib request (result (fst (execute_graph_query lib w request)))) @
     snd (generate_final_answer lib w request (pl_reasoning_steps (fst (run_stages lib w request))))"
  by (simp add: run_stages_def split: prod.splits)

lemma process_query_result:
  "fst (process_query lib w request) =
     \<lparr>result_query = query request,
      result_query_type = query_type request,
      paths = payload_paths (result (fst (execute_graph_query lib w request))),
      answer = fa_answer (pl_final_answer (fst (run_stages lib w request))),
      result_confidence = fa_confidence (pl_final_answer (fst (run_stages lib w request))),
      reasoning_steps = map description (pl_reasoning_steps (fst (run_stages lib w request))),
      execution_time = elapsed w,
      metadata =
        [(''entity'', VStr (entity request)),
         (''max_hops'', VInt (max_hops request)),
         (''steps_count'', VInt (int (length (pl_reasoning_steps (fst (run_stages lib w request)))))),
         (''graph_results_count'',
          VInt (int (length (payload_paths (result (fst (execute_graph_query lib w request)))))))]\<rparr>"
  by (simp add: process_query_def split_beta run_stages_step2)

lemma process_query_events:
  "snd (process_query lib w request) =
     Logged INFO (msg_start @ query request) # snd (run_stages lib w request) @
     [Logged INFO (msg_done @ format_2f lib (elapsed w) @ txt_seconds)]"
  by (simp add: process_query_def split_beta)

lemma final_answer_cases:
  "fst (generate_final_answer lib w request steps) =
     (case generate_final_answer_body lib (fst (call_llm lib (completion_answer w))) of
        Inr fa \<Rightarrow> fa
      | Inl e \<Rightarrow> \<lparr>fa_answer = VStr (txt_answer_failed @ str_exn lib e), fa_confidence = 0,
                  fa_explanation = VStr txt_system_error\<rparr>)"
  by (simp add: generate_final_answer_def split: prod.splits sum.splits)

text \<open>
  C5, as the code has it. Every invocation of \<^verbatim>\<open>process_query\<close> appends exactly three
  reasoning steps, with the ids 1, 2, 3 and the sources llm, graph, integration, in this
  order and whatever the earlier stages returned; the answer synthesis returns a dict and
  appends no step, so the result lists three descriptions and \<^verbatim>\<open>steps_count\<close> is 3.
\<close>

theorem three_reasoning_steps:
  "map step_id (pl_reasoning_steps (fst (run_stages lib w request))) = [1, 2, 3] \<and>
   map data_source (pl_reasoning_steps (fst (run_stages lib w request))) =
     [''llm'', ''graph'', ''integration''] \<and>
   length (reasoning_steps (fst (process_query lib w request))) = 3 \<and>
   map_of (metadata (fst (process_query lib w request))) ''steps_count'' = Some (VInt 3)"
  by (simp add: run_stages_steps process_query_result intent_step graph_step integrate_step)

text \<open>
  C7, as the code has it. A request whose query type is none of the four known members
  enters no branch of the dispatch: the step of stage 2 reports zero paths with the
  confidence 0.1, nothing is raised, nothing is logged and the store is not asked.
\<close>

theorem unknown_type_falls_through:
  assumes "query_type request = OTHER v"
  shows "execute_graph_query lib w request =
           (\<lparr>step_id = 2,
             description = txt_graph_done @ ''0'' @ txt_paths,
             data_source = ''graph'',
             result = GraphPayload [],
             step_confidence = 1 / 10\<rparr>, [])"
  using assms by (simp add: execute_graph_query_def graph_query_paths_def str_of_nat_digit)

lemma store_request_shareholder:
  "query_type request = SHAREHOLDER \<Longrightarrow>
   StoreRequest (ShareholderQuery (entity request) (max_hops request)) \<in> set (snd (execute_graph_query lib w request))"
  by (auto simp: execute_graph_query_def graph_query_paths_def find_shareholders_def split: prod.splits sum.splits)

lemma store_request_control:
  "query_type request = CONTROL_CHAIN \<Longrightarrow>
   StoreRequest (ControllingQuery (entity request)) \<in> set (snd (execute_graph_query lib w request))"
  by (auto simp: execute_graph_query_def graph_query_paths_def find_controlling_shareholder_def split: prod.splits sum.splits)

lemma store_request_relationship:
  "query_type request = RELATIONSHIP \<Longrightarrow>
   StoreRequest (MultiHopQuery (entity request) ''HOLDS'' (max_hops request)) \<in> set (snd (execute_graph_query lib w request))"
  by (auto simp: execute_graph_query_def graph_query_paths_def find_multi_hop_relationships_def split: prod.splits sum.splits)

lemma store_request_entity_info:
  "query_type request = ENTITY_INFO \<Longrightarrow>
   StoreRequest (NeighborQuery (entity request)) \<in> set (snd (execute_graph_query lib w request))"
  by (auto simp: execute_graph_query_def graph_query_paths_def get_entity_neighbors_def split: prod.splits sum.splits)

lemma graph_events_in_process:
  "ev \<in> set (snd (execute_graph_query lib w request)) \<Longrightarrow> ev \<in> set (snd (process_query lib w request))"
  by (simp add: process_query_events run_stages_events)

text \<open>
  C8, as the code has it. A request with \<^verbatim>\<open>max_hops\<close> zero or negative is not rejected:
  the pipeline runs its stages, the store is asked (with the unchanged bound in the
  shareholder and relationship queries), and the result records the bound in its
  metadata.
\<close>

theorem no_hop_validation:
  assumes "max_hops request \<le> 0"
  shows "(query_type request = SHAREHOLDER \<longrightarrow>
            StoreRequest (ShareholderQuery (entity request) (max_hops request))
              \<in> set (snd (process_query lib w request))) \<and>
         (query_type request = RELATIONSHIP \<longrightarrow>
            StoreRequest (MultiHopQuery (entity request) ''HOLDS'' (max_hops request))
              \<in> set (snd (process_query lib w request))) \<and>
         (query_type request = CONTROL_CHAIN \<longrightarrow>
            StoreRequest (ControllingQuery (entity request)) \<in> set (snd (process_query lib w request))) \<and>
         (query_type request = ENTITY_INFO \<longrightarrow>
            StoreRequest (NeighborQuery (entity request)) \<in> set (snd (process_query lib w request))) \<and>
         length (reasoning_steps (fst (process_query lib w request))) = 3 \<and>
         map_of (metadata (fst (process_query lib w request))) ''max_hops'' = Some (VInt (max_hops request))"
  using store_request_shareholder store_request_relationship store_request_control
    store_request_entity_info graph_events_in_process
  by (simp add: process_query_result run_stages_steps)

subsection \<open>Store failures\<close>





subsection \<open>Where a path's confidence comes from\<close>







subsection \<open>Failures and the result\<close>


subsection \<open>The examples, stage by stage\<close>

lemma loads_garbled: "json_loads lib0 ''not json'' = Inl decode_error"
  by (simp add: lib0_def intent_json_def answer_json_def fallback_json_def)

lemma loads_answer:
  "json_loads lib0 answer_json =
     Inr (VDict [(''answer'', VStr ''A''), (''confidence'', VFloat (9 / 10))])"
  by (simp add: lib0_def intent_json_def answer_json_def)




lemma intent_garbled:
  "completion_intent w = CompletionContent ''not json'' \<Longrightarrow>
   step_confidence (fst (identify_query_intent lib0 w request)) = 0"
  by (simp add: identify_query_intent_def identify_query_intent_body_def call_llm_def
      loads_garbled bind_exn_def)

lemma final_answered:
  "generate_final_answer_body lib0 (fst (call_llm lib0 (CompletionContent answer_json))) =
     Inr \<lparr>fa_answer = VStr ''A'', fa_confidence = 9 / 10,
          fa_explanation = VStr txt_no_explanation\<rparr>"
  by (simp add: generate_final_answer_body_def call_llm_def loads_answer bind_exn_def dict_get_def)


lemma world0_fields:
  "completion_intent world0 = CompletionContent ''not json''"
  "completion_answer world0 = CompletionContent answer_json"
  "multi_hop_cursor world0 a b c = ([], Some store_down)"
  "shareholder_cursor world0 ''Acme'' 3 = ([founder_row, fund_row], None)"
  "shareholder_cursor world0 ''Acme'' 0 = ([], None)"
  "controlling_single world0 ''Acme'' = Inr (Some founder_single)"
  "neighbor_cursor world0 ''Acme'' = ([acme_neighbor], None)"
  by (simp_all add: world0_def)

lemma request_fields:
  "query_type request0 = SHAREHOLDER" "entity request0 = ''Acme''" "max_hops request0 = 3"
  "query_type request_control = CONTROL_CHAIN" "entity request_control = ''Acme''"
  "query_type request_relationship = RELATIONSHIP" "entity request_relationship = ''Acme''"
  "max_hops request_relationship = 3"
  "query_type request_entity_info = ENTITY_INFO" "entity request_entity_info = ''Acme''"
  "query_type request_other = OTHER ''ownership''"
  "query_type request_zero_hops = SHAREHOLDER" "entity request_zero_hops = ''Acme''"
  "max_hops request_zero_hops = 0"
  by (simp_all add: request0_def request_control_def request_relationship_def
      request_entity_info_def request_other_def request_zero_hops_def)

lemma graph_down:
  "execute_graph_query lib0 world0 request_relationship =
     (\<lparr>step_id = 2, description = msg_graph_failed @ str_exn lib0 store_down,
       data_source = ''graph'', result = GraphPayload [], step_confidence = 0\<rparr>,
      [StoreRequest (MultiHopQuery ''Acme'' ''HOLDS'' 3),
       Logged ERROR (msg_graph_failed @ str_exn lib0 store_down)])"
  by (simp add: execute_graph_query_def graph_query_paths_def find_multi_hop_relationships_def
      bind_exn_def world0_fields request_fields)

lemma integrate_nothing:
  "integrate_and_reason lib request (GraphPayload []) =
     (\<lparr>step_id = 3, description = txt_no_path, data_source = ''integration'',
       result = NoInformation, step_confidence = 0\<rparr>, [])"
  by (simp add: integrate_and_reason_def)









lemma graph_zero_hops:
  "execute_graph_query lib0 world0 request_zero_hops =
     (\<lparr>step_id = 2, description = txt_graph_done @ ''0'' @ txt_paths, data_source = ''graph'',
       result = GraphPayload [], step_confidence = 1 / 10\<rparr>,
      [StoreRequest (ShareholderQuery ''Acme'' 0)])"
  by (simp add: execute_graph_query_def graph_query_paths_def find_shareholders_def
      world0_fields request_fields str_of_nat_digit)




subsection \<open>The examples of the claims\<close>




text \<open>
  A request whose first three stages all degrade to the confidence 0.0 still has the steps
  1, 2, 3.
\<close>

theorem three_reasoning_steps_witness:
  "map step_id (pl_reasoning_steps (fst (run_stages lib0 world0 request_relationship)))
     = [1, 2, 3] \<and>
   map step_confidence (pl_reasoning_steps (fst (run_stages lib0 world0 request_relationship)))
     = [0, 0, 0]"
  using three_reasoning_steps[of lib0 world0 request_relationship]
  by (simp add: run_stages_steps intent_garbled graph_down integrate_nothing world0_fields)

text \<open>
  C5 as stated fails: the step list of a request has the ids 1, 2, 3, not 1 to 4, and the
  result counts three steps.
\<close>

theorem four_steps_counterexample:
  "map step_id (pl_reasoning_steps (fst (run_stages lib0 world0 request0))) = [1, 2, 3] \<and>
   length (reasoning_steps (fst (process_query lib0 world0 request0))) = 3 \<and>
   map_of (metadata (fst (process_query lib0 world0 request0))) ''steps_count'' = Some (VInt 3)"
  by (simp add: run_stages_steps process_query_result intent_step graph_step integrate_step)



text \<open>
  A request of a fifth query type.
\<close>

theorem unknown_type_falls_through_witness:
  "query_type request_other = OTHER ''ownership'' \<and>
   execute_graph_query lib0 world0 request_other =
     (\<lparr>step_id = 2, description = txt_graph_done @ ''0'' @ txt_paths, data_source = ''graph'',
       result = GraphPayload [], step_confidence = 1 / 10\<rparr>, [])"
  using unknown_type_falls_through[of request_other "''ownership''" lib0 world0]
  by (simp add: request_fields)

text \<open>
  C7 as stated fails: for a fifth query type the dispatch returns the empty path list,
  raises nothing and logs nothing; the step has the confidence 0.1 of a query that found
  no path.
\<close>

theorem silent_dispatch_counterexample:
  "fst (graph_query_paths lib0 world0 request_other) = Inr [] \<and>
   snd (execute_graph_query lib0 world0 request_other) = [] \<and>
   step_confidence (fst (execute_graph_query lib0 world0 request_other)) = 1 / 10"
  by (simp add: execute_graph_query_def graph_query_paths_def request_fields)

text \<open>
  A shareholder request with zero hops.
\<close>

theorem no_hop_validation_witness:
  "max_hops request_zero_hops \<le> 0 \<and>
   query_type request_zero_hops = SHAREHOLDER \<and>
   StoreRequest (ShareholderQuery ''Acme'' 0)
     \<in> set (snd (process_query lib0 world0 request_zero_hops)) \<and>
   length (reasoning_steps (fst (process_query lib0 world0 request_zero_hops))) = 3 \<and>
   map_of (metadata (fst (process_query lib0 world0 request_zero_hops))) ''max_hops''
     = Some (VInt 0)"
proof -
  have hops: "max_hops request_zero_hops \<le> 0"
    by (simp add: request_fields)
  from no_hop_validation[OF hops, of lib0 world0] hops show ?thesis
    by (simp add: request_fields)
qed

text \<open>
  C8 as stated fails: the request with zero hops is processed, the store is asked with
  the bound 0, and the result is the ordinary one of a query that found no path, with
  the answer and the confidence of the completion service.
\<close>

theorem zero_hops_counterexample:
  "max_hops request_zero_hops = 0 \<and>
   StoreRequest (ShareholderQuery ''Acme'' 0)
     \<in> set (snd (process_query lib0 world0 request_zero_hops)) \<and>
   paths (fst (process_query lib0 world0 request_zero_hops)) = [] \<and>
   result_confidence (fst (process_query lib0 world0 request_zero_hops)) = 9 / 10 \<and>
   answer (fst (process_query lib0 world0 request_zero_hops)) = VStr ''A''"
  by (simp add: request_fields process_query_result process_query_events run_stages_events
      run_stages_final final_answer_cases final_answered world0_fields graph_zero_hops)

end
